theory Spec2Isabelle
  imports Main "HOL-Library.AList" "HOL-Library.Multiset"
begin

section \<open>JavaScript values\<close>

text \<open>
  The values the servers read from their JSON files, receive as request bodies, keep in
  MongoDB documents and pass to \<^verbatim>\<open>res.json\<close>. An object is the list of its own
  properties in insertion order, each key once. Numbers are the integers (identifiers
  and clock readings are; fractions are outside the model). \<open>JDate\<close> is a
  \<^verbatim>\<open>Date\<close>, given by its milliseconds since the epoch; it occurs in MongoDB
  documents only. \<^verbatim>\<open>undefined\<close> is \<open>None\<close> of \<open>jsval option\<close>.
\<close>

datatype jsval =
    JNull
  | JBool bool
  | JNum int
  | JStr string
  | JDate nat
  | JArr "jsval list"
  | JObj "(string \<times> jsval) list"

type_synonym obj = "(string \<times> jsval) list"

datatype error = IOError | SyntaxError | TypeError | DbError string

text \<open>
  The message of a thrown error, as \<^verbatim>\<open>e.message\<close> reads it. The servers put only a
  database error's message into a response; the other texts stand for the system's.
\<close>

fun error_message :: "error \<Rightarrow> string" where
  "error_message IOError = ''EIO: i/o error''"
| "error_message SyntaxError = ''Unexpected token in JSON''"
| "error_message TypeError = ''Cannot read properties of null''"
| "error_message (DbError m) = m"

text \<open>Truthiness, for \<^verbatim>\<open>a || b\<close> and \<^verbatim>\<open>c ? a : b\<close>.\<close>

fun truthy :: "jsval option \<Rightarrow> bool" where
  "truthy None = False"
| "truthy (Some JNull) = False"
| "truthy (Some (JBool b)) = b"
| "truthy (Some (JNum n)) = (n \<noteq> 0)"
| "truthy (Some (JStr s)) = (s \<noteq> [])"
| "truthy (Some (JDate t)) = True"
| "truthy (Some (JArr xs)) = True"
| "truthy (Some (JObj kvs)) = True"

text \<open>\<^verbatim>\<open>a || d\<close> with a defined right operand \<open>d\<close>.\<close>

definition js_or :: "jsval option \<Rightarrow> jsval \<Rightarrow> jsval" where
  "js_or a d = (if truthy a then the a else d)"

text \<open>
  Reading a property: \<^verbatim>\<open>a.k\<close>. It throws a TypeError on \<^verbatim>\<open>null\<close>; on an
  object it is the property or \<^verbatim>\<open>undefined\<close>; the other values have none of
  the properties the servers read (\<^verbatim>\<open>id\<close>, \<^verbatim>\<open>timestamp\<close>, \<^verbatim>\<open>status\<close>).
\<close>

fun js_get :: "jsval \<Rightarrow> string \<Rightarrow> error + jsval option" where
  "js_get JNull k = Inl TypeError"
| "js_get (JObj kvs) k = Inr (map_of kvs k)"
| "js_get v k = Inr None"

text \<open>
  Plain decimal digits of a natural number. \<^verbatim>\<open>String(n)\<close> and a template literal
  print an integer this way as long as it is below \<open>10^21\<close>; the readings of
  \<^verbatim>\<open>Date.now()\<close> and the indices of an array, for which the model uses it, always are.
\<close>

definition digit :: "nat \<Rightarrow> char" where
  "digit n = ''0123456789'' ! (n mod 10)"

function decimal :: "nat \<Rightarrow> string" where
  "decimal n = (if n < 10 then [digit n] else decimal (n div 10) @ [digit (n mod 10)])"
  by pat_completeness auto
termination
  by (relation "measure id") auto

declare decimal.simps [simp del]

fun join_commas :: "string list \<Rightarrow> string" where
  "join_commas [] = []"
| "join_commas [s] = s"
| "join_commas (s # t # ss) = s @ '','' @ join_commas (t # ss)"

text \<open>
  How the library prints a number and a date as text (\<^verbatim>\<open>Number.prototype.toString\<close>,
  which turns to exponent form from \<open>10^21\<close> on, and \<^verbatim>\<open>Date.prototype.toString\<close>,
  which depends on the time zone). Neither is code of the servers: both are parameters
  of everything that calls \<^verbatim>\<open>String\<close>.
\<close>

record printer =
  number_text :: "int \<Rightarrow> string"
  date_text :: "nat \<Rightarrow> string"

text \<open>
  \<^verbatim>\<open>String(v)\<close>. An array prints its elements joined by commas, \<^verbatim>\<open>null\<close>
  elements as the empty string; an object prints as \<^verbatim>\<open>[object Object]\<close>.
\<close>

fun js_String :: "printer \<Rightarrow> jsval \<Rightarrow> string" where
  "js_String pr JNull = ''null''"
| "js_String pr (JBool b) = (if b then ''true'' else ''false'')"
| "js_String pr (JNum n) = number_text pr n"
| "js_String pr (JStr s) = s"
| "js_String pr (JDate t) = date_text pr t"
| "js_String pr (JArr xs) =
     join_commas (map (\<lambda>x. if x = JNull then [] else js_String pr x) xs)"
| "js_String pr (JObj kvs) = ''[object Object]''"

definition js_String_opt :: "printer \<Rightarrow> jsval option \<Rightarrow> string" where
  "js_String_opt pr v = (case v of None \<Rightarrow> ''undefined'' | Some x \<Rightarrow> js_String pr x)"


text \<open>\<^verbatim>\<open>{...a, ...b}\<close>: the properties of \<open>b\<close> are set on a copy of \<open>a\<close>, in order.\<close>

definition spread :: "obj \<Rightarrow> obj \<Rightarrow> obj" where
  "spread a b = fold (\<lambda>(k, v). AList.update k v) b a"

record response =
  status :: nat
  body :: jsval

text \<open>\<^verbatim>\<open>res.json(v)\<close> and \<^verbatim>\<open>res.status(c).json(v)\<close>.\<close>

definition json :: "jsval \<Rightarrow> response" where
  "json v = \<lparr>status = 200, body = v\<rparr>"

definition status_json :: "nat \<Rightarrow> jsval \<Rightarrow> response" where
  "status_json c v = \<lparr>status = c, body = v\<rparr>"

section \<open>The file-backed server\<close>

text \<open>
  \<^verbatim>\<open>server.js\<close> keeps each collection in a JSON file beside the program and its one
  backup under \<^verbatim>\<open>backup/\<close>. A file's text is represented by what \<^verbatim>\<open>JSON.parse\<close>
  makes of it: \<open>Json v\<close> is a text that parses to \<open>v\<close> (the text
  \<^verbatim>\<open>JSON.stringify\<close> writes for \<open>v\<close> is one), \<open>Blank\<close> the empty text, \<open>Garbled\<close> a text
  the parser rejects. Paths are relative to \<^verbatim>\<open>__dirname\<close>. The file system carries
  the storage faults: the paths whose read, write or directory creation throws. A write
  that throws leaves the file as it was.
\<close>

datatype ftext = Blank | Json jsval | Garbled

record fsys =
  files :: "string \<rightharpoonup> ftext"
  read_fault :: "string set"
  write_fault :: "string set"
  mkdir_fault :: "string set"

definition existsSync :: "string \<Rightarrow> fsys \<Rightarrow> bool" where
  "existsSync p s = (files s p \<noteq> None)"

definition readFileSync :: "string \<Rightarrow> fsys \<Rightarrow> error + ftext" where
  "readFileSync p s =
     (case files s p of
        None \<Rightarrow> Inl IOError
      | Some t \<Rightarrow> if p \<in> read_fault s then Inl IOError else Inr t)"

definition writeFileSync :: "string \<Rightarrow> ftext \<Rightarrow> fsys \<Rightarrow> error + fsys" where
  "writeFileSync p t s =
     (if p \<in> write_fault s then Inl IOError else Inr (s\<lparr>files := (files s)(p \<mapsto> t)\<rparr>))"

text \<open>\<^verbatim>\<open>fs.mkdirSync(d, { recursive: true })\<close>: directories are not part of the state.\<close>

definition mkdirSync :: "string \<Rightarrow> fsys \<Rightarrow> error + unit" where
  "mkdirSync d s = (if d \<in> mkdir_fault s then Inl IOError else Inr ())"

definition JSON_parse :: "ftext \<Rightarrow> error + jsval" where
  "JSON_parse t = (case t of Json v \<Rightarrow> Inr v | Blank \<Rightarrow> Inl SyntaxError | Garbled \<Rightarrow> Inl SyntaxError)"

definition JSON_stringify :: "jsval \<Rightarrow> ftext" where
  "JSON_stringify v = Json v"

text \<open>The text \<^verbatim>\<open>"[]"\<close>.\<close>

definition empty_array_text :: ftext where
  "empty_array_text = Json (JArr [])"

definition filePathOf :: "string \<Rightarrow> string" where
  "filePathOf name = name"

definition backupPathOf :: "string \<Rightarrow> string" where
  "backupPathOf name = ''backup/'' @ name"

text \<open>\<^verbatim>\<open>path.dirname(bp)\<close> of a backup path.\<close>

definition backupDir :: string where
  "backupDir = ''backup''"

text \<open>\<^verbatim>\<open>ensureJsonFile\<close>: a failed creation is logged and ignored.\<close>

definition ensureJsonFile :: "string \<Rightarrow> fsys \<Rightarrow> fsys" where
  "ensureJsonFile name s =
     (let fp = filePathOf name in
      if \<not> existsSync fp s then
        (case writeFileSync fp empty_array_text s of Inl e \<Rightarrow> s | Inr s' \<Rightarrow> s')
      else s)"

definition readJsonArray :: "string \<Rightarrow> fsys \<Rightarrow> jsval list \<times> fsys" where
  "readJsonArray name s =
     (let s1 = ensureJsonFile name s in
      (case readFileSync (filePathOf name) s1 of
         Inl e \<Rightarrow> []
       | Inr raw \<Rightarrow>
           (case JSON_parse (if raw = Blank then empty_array_text else raw) of
              Inl e \<Rightarrow> []
            | Inr parsed \<Rightarrow> (case parsed of JArr xs \<Rightarrow> xs | _ \<Rightarrow> [])),
       s1))"

definition writeJsonArray :: "string \<Rightarrow> jsval list \<Rightarrow> fsys \<Rightarrow> fsys" where
  "writeJsonArray name arr s =
     (case writeFileSync (filePathOf name) (JSON_stringify (JArr arr)) s of
        Inl e \<Rightarrow> s
      | Inr s' \<Rightarrow> s')"

text \<open>
  The pushers. \<open>num\<close> is the library's \<^verbatim>\<open>Number\<close> conversion (with \<open>JNull\<close> for
  \<^verbatim>\<open>NaN\<close>, which is falsy and which JSON writes as \<^verbatim>\<open>null\<close>), \<open>now\<close> the reading of
  \<^verbatim>\<open>Date.now()\<close> and \<open>isoNow\<close> the text of \<^verbatim>\<open>new Date().toISOString()\<close> at the call.
  \<open>obj\<close> is the request body.
\<close>

definition pushAppointment ::
  "(jsval option \<Rightarrow> jsval) \<Rightarrow> nat \<Rightarrow> string \<Rightarrow> obj \<Rightarrow> fsys \<Rightarrow> jsval \<times> fsys" where
  "pushAppointment num now isoNow obj s =
     (let (arr, s1) = readJsonArray ''appointments.json'' s;
          newAppointment = JObj
            [(''id'', js_or (map_of obj ''id'') (JStr (''apt_'' @ decimal now))),
             (''name'', js_or (map_of obj ''name'') JNull),
             (''email'', js_or (map_of obj ''email'') JNull),
             (''phone'', js_or (map_of obj ''phone'') JNull),
             (''bookingType'', js_or (map_of obj ''bookingType'') JNull),
             (''fee'', js_or (Some (num (map_of obj ''fee''))) (JNum 0)),
             (''date'', js_or (map_of obj ''date'') JNull),
             (''message'', if truthy (map_of obj ''message'') then the (map_of obj ''message'')
                           else js_or (map_of obj ''msg'') (JStr [])),
             (''status'', js_or (map_of obj ''status'') (JStr ''pending'')),
             (''payment_id'', js_or (map_of obj ''payment_id'') JNull),
             (''order_id'', js_or (map_of obj ''order_id'') JNull),
             (''timestamp'', JStr isoNow)]
      in (newAppointment, writeJsonArray ''appointments.json'' (arr @ [newAppointment]) s1))"

text \<open>\<^verbatim>\<open>a ?? d\<close>: the left operand unless it is \<^verbatim>\<open>null\<close> or \<^verbatim>\<open>undefined\<close>.\<close>

definition nullish :: "jsval option \<Rightarrow> jsval \<Rightarrow> jsval" where
  "nullish a d = (case a of None \<Rightarrow> d | Some JNull \<Rightarrow> d | Some v \<Rightarrow> v)"

definition pushFeedback ::
  "(jsval option \<Rightarrow> jsval) \<Rightarrow> nat \<Rightarrow> string \<Rightarrow> obj \<Rightarrow> fsys \<Rightarrow> jsval \<times> fsys" where
  "pushFeedback num now isoNow obj s =
     (let (arr, s1) = readJsonArray ''feedback.json'' s;
          message = nullish (map_of obj ''feedback'') (nullish (map_of obj ''message'') (JStr []));
          newFeedback = JObj
            [(''id'', JStr (''fb_'' @ decimal now)),
             (''name'', js_or (map_of obj ''name'') JNull),
             (''email'', js_or (map_of obj ''email'') JNull),
             (''phone'', js_or (map_of obj ''phone'') JNull),
             (''message'', message),
             (''rating'', if truthy (map_of obj ''rating'') then num (map_of obj ''rating'') else JNull),
             (''timestamp'', JStr isoNow)]
      in (newFeedback, writeJsonArray ''feedback.json'' (arr @ [newFeedback]) s1))"

text \<open>
  \<^verbatim>\<open>clearFile\<close> returns or throws; either way the file system may have changed, so
  the outcome comes with the state.
\<close>

definition clearFile :: "string \<Rightarrow> fsys \<Rightarrow> (error + unit) \<times> fsys" where
  "clearFile name s =
     (let fp = filePathOf name; bp = backupPathOf name in
      case mkdirSync backupDir s of
        Inl e \<Rightarrow> (Inl e, s)
      | Inr _ \<Rightarrow>
          if \<not> existsSync fp s then
            (case writeFileSync fp empty_array_text s of
               Inl e \<Rightarrow> (Inl e, s)
             | Inr s1 \<Rightarrow>
                 (case writeFileSync bp empty_array_text s1 of
                    Inl e \<Rightarrow> (Inl e, s1)
                  | Inr s2 \<Rightarrow> (Inr (), s2)))
          else
            (case readFileSync fp s of
               Inl e \<Rightarrow> (Inl e, s)
             | Inr current \<Rightarrow>
                 (case writeFileSync bp current s of
                    Inl e \<Rightarrow> (Inl e, s)
                  | Inr s1 \<Rightarrow>
                      (case writeFileSync fp empty_array_text s1 of
                         Inl e \<Rightarrow> (Inl e, s1)
                       | Inr s2 \<Rightarrow> (Inr (), s2)))))"

definition undoClear :: "string \<Rightarrow> fsys \<Rightarrow> bool \<times> fsys" where
  "undoClear name s =
     (let fp = filePathOf name; bp = backupPathOf name in
      if \<not> existsSync bp s then (False, s)
      else
        (case readFileSync bp s of
           Inl e \<Rightarrow> (False, s)
         | Inr backup \<Rightarrow>
             (case writeFileSync fp backup s of
                Inl e \<Rightarrow> (False, s)
              | Inr s1 \<Rightarrow> (True, s1))))"

text \<open>
  The route handlers, as they run once \<^verbatim>\<open>requireAdmin\<close> has let the request through.
\<close>

definition get_api_appointments :: "fsys \<Rightarrow> response \<times> fsys" where
  "get_api_appointments s =
     (let (arr, s1) = readJsonArray ''appointments.json'' s in (json (JArr arr), s1))"

definition get_api_feedbacks :: "fsys \<Rightarrow> response \<times> fsys" where
  "get_api_feedbacks s =
     (let (arr, s1) = readJsonArray ''feedback.json'' s in (json (JArr arr), s1))"

definition delete_api_appointments :: "fsys \<Rightarrow> response \<times> fsys" where
  "delete_api_appointments s =
     (case clearFile ''appointments.json'' s of
        (Inr _, s1) \<Rightarrow>
          (json (JObj [(''status'', JStr ''success''),
                       (''message'', JStr ''All appointments cleared. You can undo.'')]), s1)
      | (Inl e, s1) \<Rightarrow>
          (status_json 500 (JObj [(''error'', JStr ''Could not clear appointments'')]), s1))"

definition delete_api_feedbacks :: "fsys \<Rightarrow> response \<times> fsys" where
  "delete_api_feedbacks s =
     (case clearFile ''feedback.json'' s of
        (Inr _, s1) \<Rightarrow>
          (json (JObj [(''status'', JStr ''success''),
                       (''message'', JStr ''All feedback cleared. You can undo.'')]), s1)
      | (Inl e, s1) \<Rightarrow>
          (status_json 500 (JObj [(''error'', JStr ''Could not clear feedback'')]), s1))"

definition post_api_appointments_undo :: "fsys \<Rightarrow> response \<times> fsys" where
  "post_api_appointments_undo s =
     (case undoClear ''appointments.json'' s of
        (True, s1) \<Rightarrow>
          (json (JObj [(''status'', JStr ''success''),
                       (''message'', JStr ''Appointments restored from backup'')]), s1)
      | (False, s1) \<Rightarrow>
          (status_json 400 (JObj [(''error'', JStr ''No backup available'')]), s1))"

definition post_api_feedbacks_undo :: "fsys \<Rightarrow> response \<times> fsys" where
  "post_api_feedbacks_undo s =
     (case undoClear ''feedback.json'' s of
        (True, s1) \<Rightarrow>
          (json (JObj [(''status'', JStr ''success''),
                       (''message'', JStr ''Feedback restored from backup'')]), s1)
      | (False, s1) \<Rightarrow>
          (status_json 400 (JObj [(''error'', JStr ''No backup available'')]), s1))"

text \<open>
  \<^verbatim>\<open>Array.prototype.findIndex\<close> with a callback that may throw; \<open>None\<close> is \<open>-1\<close>.
\<close>

fun findIndex :: "(jsval \<Rightarrow> error + bool) \<Rightarrow> jsval list \<Rightarrow> error + nat option" where
  "findIndex p [] = Inr None"
| "findIndex p (a # as) =
     (case p a of
        Inl e \<Rightarrow> Inl e
      | Inr True \<Rightarrow> Inr (Some 0)
      | Inr False \<Rightarrow>
          (case findIndex p as of
             Inl e \<Rightarrow> Inl e
           | Inr None \<Rightarrow> Inr None
           | Inr (Some i) \<Rightarrow> Inr (Some (Suc i))))"

text \<open>
  The callback \<^verbatim>\<open>a => String(a.id) === String(id)\<close>; \<open>id\<close> is the path parameter,
  a text, which \<^verbatim>\<open>String\<close> leaves as it is.
\<close>

definition id_matches :: "printer \<Rightarrow> string \<Rightarrow> jsval \<Rightarrow> error + bool" where
  "id_matches pr ident a =
     (case js_get a ''id'' of Inl e \<Rightarrow> Inl e | Inr v \<Rightarrow> Inr (js_String_opt pr v = ident))"


text \<open>
  What "ordered by timestamp descending" means for the records of a JSON file, whose
  timestamps are ISO 8601 texts: no record is followed by one with a later timestamp.
  Texts are compared character by character, which for ISO 8601 texts is the order in time.
\<close>

fun str_less :: "string \<Rightarrow> string \<Rightarrow> bool" where
  "str_less [] [] = False"
| "str_less [] (d # ds) = True"
| "str_less (c # cs) [] = False"
| "str_less (c # cs) (d # ds) =
     (if c = d then str_less cs ds else (of_char c :: nat) < of_char d)"

definition json_timestamp :: "jsval \<Rightarrow> string" where
  "json_timestamp a = (case js_get a ''timestamp'' of Inr (Some (JStr t)) \<Rightarrow> t | _ \<Rightarrow> [])"

definition timestamp_descending :: "jsval list \<Rightarrow> bool" where
  "timestamp_descending xs =
     sorted_wrt (\<lambda>a b. \<not> str_less (json_timestamp a) (json_timestamp b)) xs"

section \<open>The second file-backed server\<close>






section \<open>The MongoDB server\<close>

text \<open>
  The Mongoose variant keeps each collection in MongoDB and every backup as a document of
  a \<^verbatim>\<open>Backup\<close> collection. A stored document is its \<^verbatim>\<open>_id\<close> (every stored
  document has one, unique in its collection; \<open>oid\<close> is the text \<^verbatim>\<open>String(_id)\<close>
  prints) and its other properties, among them the version key \<^verbatim>\<open>__v\<close> and the
  \<^verbatim>\<open>timestamp\<close>, which the schemas declare a \<^verbatim>\<open>Date\<close>. The field
  \<open>note_text\<close> is the backup schema's \<^verbatim>\<open>note\<close>.
\<close>

record doc =
  oid :: string
  props :: obj

record backup =
  collectionName :: string
  createdAt :: nat
  data :: "doc list"
  note_text :: "string option"

datatype model = Appointment | Feedback | Payment

datatype dbop = Find | DeleteMany | InsertMany | BackupCreate | BackupFindOne

text \<open>
  The database: the three collections in insertion order, the backups in insertion
  order, and the operations that are rejected while a storage fault lasts, each with the
  driver's message.
\<close>

record db =
  coll :: "model \<Rightarrow> doc list"
  backups :: "backup list"
  fault :: "dbop \<rightharpoonup> string"

text \<open>
  The library operations the server calls. \<^verbatim>\<open>Model.find().lean()\<close> reads a collection;
  \<^verbatim>\<open>sort({ timestamp: -1 })\<close> orders it by timestamp, latest first, a document without
  a date last. MongoDB leaves the order among equal timestamps open; the model keeps the
  stored order.
\<close>

definition find_lean :: "model \<Rightarrow> db \<Rightarrow> error + doc list" where
  "find_lean m s = (case fault s Find of Some msg \<Rightarrow> Inl (DbError msg) | None \<Rightarrow> Inr (coll s m))"

definition ts_key :: "doc \<Rightarrow> nat option" where
  "ts_key d = (case map_of (props d) ''timestamp'' of Some (JDate t) \<Rightarrow> Some t | _ \<Rightarrow> None)"

fun ts_ge :: "nat option \<Rightarrow> nat option \<Rightarrow> bool" where
  "ts_ge a None = True"
| "ts_ge None (Some y) = False"
| "ts_ge (Some x) (Some y) = (y \<le> x)"

fun insort_desc :: "doc \<Rightarrow> doc list \<Rightarrow> doc list" where
  "insort_desc d [] = [d]"
| "insort_desc d (x # xs) =
     (if ts_ge (ts_key d) (ts_key x) then d # x # xs else x # insort_desc d xs)"

definition sort_timestamp_desc :: "doc list \<Rightarrow> doc list" where
  "sort_timestamp_desc ds = foldr insort_desc ds []"

definition find_sort_lean :: "model \<Rightarrow> db \<Rightarrow> error + doc list" where
  "find_sort_lean m s =
     (case fault s Find of
        Some msg \<Rightarrow> Inl (DbError msg)
      | None \<Rightarrow> Inr (sort_timestamp_desc (coll s m)))"

definition deleteMany :: "model \<Rightarrow> db \<Rightarrow> error + db" where
  "deleteMany m s =
     (case fault s DeleteMany of
        Some msg \<Rightarrow> Inl (DbError msg)
      | None \<Rightarrow> Inr (s\<lparr>coll := (coll s)(m := [])\<rparr>))"

text \<open>
  \<^verbatim>\<open>Model.insertMany(docs, { ordered: false })\<close>: every document is stored with its
  \<^verbatim>\<open>_id\<close> and the version key set to 0, but one whose \<^verbatim>\<open>_id\<close> the collection
  already holds is skipped; once all were tried, a skipped document makes the call
  throw the duplicate key error.
\<close>

definition versioned :: "doc \<Rightarrow> doc" where
  "versioned d = d\<lparr>props := AList.update ''__v'' (JNum 0) (props d)\<rparr>"

fun insert_unordered :: "doc list \<Rightarrow> doc list \<Rightarrow> doc list \<times> bool" where
  "insert_unordered [] stored = (stored, False)"
| "insert_unordered (d # ds) stored =
     (if oid d \<in> set (map oid stored) then (fst (insert_unordered ds stored), True)
      else insert_unordered ds (stored @ [versioned d]))"

definition insertMany :: "model \<Rightarrow> doc list \<Rightarrow> db \<Rightarrow> (error + unit) \<times> db" where
  "insertMany m docs s =
     (case fault s InsertMany of
        Some msg \<Rightarrow> (Inl (DbError msg), s)
      | None \<Rightarrow>
          (let (stored, skipped) = insert_unordered docs (coll s m);
               s1 = s\<lparr>coll := (coll s)(m := stored)\<rparr>
           in (if skipped then Inl (DbError ''E11000 duplicate key error'') else Inr (), s1)))"

definition Backup_create :: "backup \<Rightarrow> db \<Rightarrow> error + db" where
  "Backup_create b s =
     (case fault s BackupCreate of
        Some msg \<Rightarrow> Inl (DbError msg)
      | None \<Rightarrow> Inr (s\<lparr>backups := backups s @ [b]\<rparr>))"

text \<open>
  \<^verbatim>\<open>Backup.findOne({ collectionName }).sort({ createdAt: -1 })\<close>: a backup of the
  collection with the greatest creation time. MongoDB leaves the choice among equal
  creation times open; the model takes the earliest stored.
\<close>

definition latest_backup :: "string \<Rightarrow> backup list \<Rightarrow> backup option" where
  "latest_backup name bs =
     (case filter (\<lambda>b. collectionName b = name) bs of
        [] \<Rightarrow> None
      | b # rest \<Rightarrow>
          Some (fold (\<lambda>x best. if createdAt best < createdAt x then x else best) rest b))"

definition Backup_findOne_latest :: "string \<Rightarrow> db \<Rightarrow> error + backup option" where
  "Backup_findOne_latest name s =
     (case fault s BackupFindOne of
        Some msg \<Rightarrow> Inl (DbError msg)
      | None \<Rightarrow> Inr (latest_backup name (backups s)))"

text \<open>The copy \<^verbatim>\<open>{ ...d }\<close> with \<^verbatim>\<open>__v\<close> deleted.\<close>

definition delete_v :: "doc \<Rightarrow> doc" where
  "delete_v d = d\<lparr>props := AList.delete ''__v'' (props d)\<rparr>"

text \<open>
  \<^verbatim>\<open>createBackupForCollection\<close>; \<open>now\<close> is the reading of \<^verbatim>\<open>Date.now\<close> that
  the schema's default gives \<^verbatim>\<open>createdAt\<close>. A failed creation is logged and the
  function returns normally.
\<close>

definition createBackupForCollection ::
  "string \<Rightarrow> doc list \<Rightarrow> string option \<Rightarrow> nat \<Rightarrow> db \<Rightarrow> db" where
  "createBackupForCollection name dataArray nt now s =
     (let plain = map delete_v dataArray in
      case Backup_create \<lparr>collectionName = name, createdAt = now, data = plain, note_text = nt\<rparr> s of
        Inl e \<Rightarrow> s
      | Inr s1 \<Rightarrow> s1)"

definition delete_api_appointments_db :: "nat \<Rightarrow> db \<Rightarrow> response \<times> db" where
  "delete_api_appointments_db now s =
     (let failed = status_json 500 (JObj [(''error'', JStr ''Could not clear appointments'')])
      in case find_lean Appointment s of
           Inl e \<Rightarrow> (failed, s)
         | Inr current \<Rightarrow>
             (let s1 = createBackupForCollection ''appointments'' current
                         (Some ''Cleared by admin'') now s
              in case deleteMany Appointment s1 of
                   Inl e \<Rightarrow> (failed, s1)
                 | Inr s2 \<Rightarrow>
                     (json (JObj [(''status'', JStr ''success''),
                        (''message'', JStr
                          ''All appointments cleared. You can undo (restores the latest backup).'')]),
                      s2)))"

definition delete_api_feedbacks_db :: "nat \<Rightarrow> db \<Rightarrow> response \<times> db" where
  "delete_api_feedbacks_db now s =
     (let failed = status_json 500 (JObj [(''error'', JStr ''Could not clear feedback'')])
      in case find_lean Feedback s of
           Inl e \<Rightarrow> (failed, s)
         | Inr current \<Rightarrow>
             (let s1 = createBackupForCollection ''feedback'' current
                         (Some ''Cleared by admin'') now s
              in case deleteMany Feedback s1 of
                   Inl e \<Rightarrow> (failed, s1)
                 | Inr s2 \<Rightarrow>
                     (json (JObj [(''status'', JStr ''success''),
                        (''message'', JStr
                          ''All feedback cleared. You can undo (restores the latest backup).'')]),
                      s2)))"

definition modelMap :: "string \<Rightarrow> model option" where
  "modelMap name =
     (if name = ''appointments'' then Some Appointment
      else if name = ''feedback'' then Some Feedback
      else if name = ''payments'' then Some Payment
      else None)"

record restore_result =
  ok :: bool
  message :: string
  restoredCount :: "nat option"

text \<open>
  \<^verbatim>\<open>restoreLatestBackupForCollection\<close>. The lookup of the latest backup stands outside
  the \<^verbatim>\<open>try\<close>, so its failure is thrown to the caller.
\<close>

definition restoreLatestBackupForCollection ::
  "string \<Rightarrow> db \<Rightarrow> (error + restore_result) \<times> db" where
  "restoreLatestBackupForCollection name s =
     (case Backup_findOne_latest name s of
        Inl e \<Rightarrow> (Inl e, s)
      | Inr None \<Rightarrow>
          (Inr \<lparr>ok = False, message = ''No backup available'', restoredCount = None\<rparr>, s)
      | Inr (Some latest) \<Rightarrow>
          (let docs = data latest in
           case modelMap name of
             None \<Rightarrow>
               (Inr \<lparr>ok = False, message = ''Unknown collection for restore'',
                     restoredCount = None\<rparr>, s)
           | Some m \<Rightarrow>
               (case deleteMany m s of
                  Inl e \<Rightarrow>
                    (Inr \<lparr>ok = False, message = ''Restore failed: '' @ error_message e,
                          restoredCount = None\<rparr>, s)
                | Inr s1 \<Rightarrow>
                    if docs \<noteq> [] then
                      (case insertMany m (map delete_v docs) s1 of
                         (Inl e, s2) \<Rightarrow>
                           (Inr \<lparr>ok = False, message = ''Restore failed: '' @ error_message e,
                                 restoredCount = None\<rparr>, s2)
                       | (Inr _, s2) \<Rightarrow>
                           (Inr \<lparr>ok = True, message = ''Restored from latest backup'',
                                 restoredCount = Some (length docs)\<rparr>, s2))
                    else
                      (Inr \<lparr>ok = True, message = ''Restored from latest backup'',
                            restoredCount = Some (length docs)\<rparr>, s1))))"

text \<open>The body of a successful undo; an undefined count would leave its key out.\<close>

definition undo_success_body :: "restore_result \<Rightarrow> jsval" where
  "undo_success_body result =
     JObj ([(''status'', JStr ''success''), (''message'', JStr (message result))] @
           (case restoredCount result of
              None \<Rightarrow> []
            | Some n \<Rightarrow> [(''restored'', JNum (int n))]))"

definition post_api_appointments_undo_db :: "db \<Rightarrow> response \<times> db" where
  "post_api_appointments_undo_db s =
     (case restoreLatestBackupForCollection ''appointments'' s of
        (Inl e, s1) \<Rightarrow>
          (status_json 500 (JObj [(''error'', JStr ''Could not undo appointments clear'')]), s1)
      | (Inr result, s1) \<Rightarrow>
          if \<not> ok result then (status_json 400 (JObj [(''error'', JStr (message result))]), s1)
          else (json (undo_success_body result), s1))"

definition post_api_feedbacks_undo_db :: "db \<Rightarrow> response \<times> db" where
  "post_api_feedbacks_undo_db s =
     (case restoreLatestBackupForCollection ''feedback'' s of
        (Inl e, s1) \<Rightarrow>
          (status_json 500 (JObj [(''error'', JStr ''Could not undo feedback clear'')]), s1)
      | (Inr result, s1) \<Rightarrow>
          if \<not> ok result then (status_json 400 (JObj [(''error'', JStr (message result))]), s1)
          else (json (undo_success_body result), s1))"

text \<open>
  The listing: \<^verbatim>\<open>a.id = String(a._id); delete a._id; delete a.__v\<close> on each document
  of the sorted result.
\<close>

definition list_item :: "doc \<Rightarrow> jsval" where
  "list_item a = JObj (AList.delete ''__v'' (AList.update ''id'' (JStr (oid a)) (props a)))"

definition get_api_appointments_db :: "db \<Rightarrow> response \<times> db" where
  "get_api_appointments_db s =
     (case find_sort_lean Appointment s of
        Inl e \<Rightarrow> (status_json 500 (JObj [(''error'', JStr ''Could not fetch appointments'')]), s)
      | Inr arr \<Rightarrow> (json (JArr (map list_item arr)), s))"

definition get_api_feedbacks_db :: "db \<Rightarrow> response \<times> db" where
  "get_api_feedbacks_db s =
     (case find_sort_lean Feedback s of
        Inl e \<Rightarrow> (status_json 500 (JObj [(''error'', JStr ''Could not fetch feedbacks'')]), s)
      | Inr arr \<Rightarrow> (json (JArr (map list_item arr)), s))"

text \<open>
  A history of the database: the admin's clear and undo requests (a clear with the clock
  reading its backup gets), and storage faults setting in or passing.
\<close>

datatype event =
    ClearAppointments nat
  | ClearFeedbacks nat
  | UndoAppointments
  | UndoFeedbacks
  | Faults "dbop \<rightharpoonup> string"

fun serve :: "event \<Rightarrow> db \<Rightarrow> db" where
  "serve (ClearAppointments now) d = snd (delete_api_appointments_db now d)"
| "serve (ClearFeedbacks now) d = snd (delete_api_feedbacks_db now d)"
| "serve UndoAppointments d = snd (post_api_appointments_undo_db d)"
| "serve UndoFeedbacks d = snd (post_api_feedbacks_undo_db d)"
| "serve (Faults f) d = d\<lparr>fault := f\<rparr>"

definition history :: "event list \<Rightarrow> db \<Rightarrow> db" where
  "history evs d = fold serve evs d"

section \<open>Example states\<close>

text \<open>
  A printer for the examples: plain decimal digits, a number's text below \<open>10^21\<close>.
  The ids of the examples are texts, so no example reaches it.
\<close>

definition plain :: printer where
  "plain = \<lparr>number_text = (\<lambda>i. if i < 0 then CHR ''-'' # decimal (nat (- i)) else decimal (nat i)),
            date_text = decimal\<rparr>"

text \<open>A healthy, empty file system: no file exists yet and no operation faults.\<close>

definition fs0 :: fsys where
  "fs0 = \<lparr>files = Map.empty, read_fault = {}, write_fault = {}, mkdir_fault = {}\<rparr>"

text \<open>One appointment on file, and one appointment in the database.\<close>

definition asha :: jsval where
  "asha = JObj [(''id'', JStr ''apt_1700000000000''), (''name'', JStr ''Asha''),
                (''fee'', JNum 500), (''status'', JStr ''pending''),
                (''timestamp'', JStr ''2023-11-14T22:13:20.000Z'')]"

definition fs1 :: fsys where
  "fs1 = \<lparr>files = [''appointments.json'' \<mapsto> Json (JArr [asha])],
          read_fault = {}, write_fault = {}, mkdir_fault = {}\<rparr>"

definition asha_doc :: doc where
  "asha_doc = \<lparr>oid = ''655400000000000000000001'',
               props = [(''name'', JStr ''Asha''), (''fee'', JNum 500),
                        (''status'', JStr ''pending''), (''timestamp'', JDate 1700000000000),
                        (''__v'', JNum 0)]\<rparr>"

definition db1 :: db where
  "db1 = \<lparr>coll = (\<lambda>m. if m = Appointment then [asha_doc] else []),
          backups = [], fault = Map.empty\<rparr>"

text \<open>
  The two stores after both collections were cleared: the live collections empty, the
  snapshot of each kept.
\<close>

definition thanks :: jsval where
  "thanks = JObj [(''id'', JStr ''fb_1700000100000''), (''name'', JStr ''Ravi''),
                  (''message'', JStr ''Thank you''), (''rating'', JNum 5),
                  (''timestamp'', JStr ''2023-11-14T22:15:00.000Z'')]"

definition fs2 :: fsys where
  "fs2 = \<lparr>files = [''appointments.json'' \<mapsto> Json (JArr []),
                   ''backup/appointments.json'' \<mapsto> Json (JArr [asha]),
                   ''feedback.json'' \<mapsto> Json (JArr []),
                   ''backup/feedback.json'' \<mapsto> Json (JArr [thanks])],
          read_fault = {}, write_fault = {}, mkdir_fault = {}\<rparr>"

definition thanks_doc :: doc where
  "thanks_doc = \<lparr>oid = ''655400000000000000000002'',
                 props = [(''name'', JStr ''Ravi''), (''message'', JStr ''Thank you''),
                          (''rating'', JNum 5), (''timestamp'', JDate 1700000100000),
                          (''__v'', JNum 0)]\<rparr>"

definition snapshot1 :: backup where
  "snapshot1 = \<lparr>collectionName = ''appointments'', createdAt = 1700000000500,
                data = [delete_v asha_doc], note_text = Some ''Cleared by admin''\<rparr>"

definition snapshot2 :: backup where
  "snapshot2 = \<lparr>collectionName = ''feedback'', createdAt = 1700000200000,
                data = [delete_v thanks_doc], note_text = Some ''Cleared by admin''\<rparr>"

definition db2 :: db where
  "db2 = \<lparr>coll = (\<lambda>m. []), backups = [snapshot1, snapshot2], fault = Map.empty\<rparr>"

text \<open>Two appointments on file, the earlier submission first.\<close>

definition bina :: jsval where
  "bina = JObj [(''id'', JStr ''apt_1700086400000''), (''name'', JStr ''Bina''),
                (''fee'', JNum 300), (''status'', JStr ''pending''),
                (''timestamp'', JStr ''2023-11-15T22:13:20.000Z'')]"

definition fs3 :: fsys where
  "fs3 = \<lparr>files = [''appointments.json'' \<mapsto> Json (JArr [asha, bina])],
          read_fault = {}, write_fault = {}, mkdir_fault = {}\<rparr>"

text \<open>The database with one appointment while backups cannot be written.\<close>

definition bina_doc :: doc where
  "bina_doc = \<lparr>oid = ''655400000000000000000003'',
               props = [(''name'', JStr ''Bina''), (''fee'', JNum 300),
                        (''status'', JStr ''pending''), (''timestamp'', JDate 1700086400000),
                        (''__v'', JNum 0)]\<rparr>"

text \<open>
  The database some time after the first clear: the snapshot of that clear is stored, a
  new appointment has come in, and backups cannot be written.
\<close>

definition db3_backup_down :: db where
  "db3_backup_down = \<lparr>coll = (\<lambda>m. if m = Appointment then [bina_doc] else []),
          backups = [snapshot1], fault = [BackupCreate \<mapsto> ''connection lost'']\<rparr>"

definition db1_backup_down :: db where
  "db1_backup_down = \<lparr>coll = (\<lambda>m. if m = Appointment then [asha_doc] else []),
          backups = [], fault = [BackupCreate \<mapsto> ''connection lost'']\<rparr>"

section \<open>Properties of the file-backed server\<close>

lemma map_of_spread:
  "distinct (map fst b) \<Longrightarrow> map_of (spread a b) = map_of a ++ map_of b"
proof -
  have "distinct (map fst b) \<Longrightarrow>
      map_of (fold (\<lambda>(k, v). AList.update k v) b a) = map_of a ++ map_of b" for a
  proof (induction b arbitrary: a)
    case Nil
    show ?case by simp
  next
    case (Cons p b)
    obtain k v where p: "p = (k, v)" by (cases p)
    from Cons.prems have nk: "map_of b k = None" and d: "distinct (map fst b)"
      by (auto simp: p map_of_eq_None_iff)
    have "map_of (fold (\<lambda>(k, v). AList.update k v) (p # b) a)
        = map_of (AList.update k v a) ++ map_of b"
      using Cons.IH [OF d, of "AList.update k v a"] by (simp add: p)
    also have "\<dots> = map_of a ++ map_of (p # b)"
      using nk by (auto simp: p update_conv' fun_eq_iff map_add_def split: option.splits)
    finally show ?case .
  qed
  then show "distinct (map fst b) \<Longrightarrow> ?thesis" by (simp add: spread_def)
qed

lemma paths_differ: "filePathOf name \<noteq> backupPathOf name"
proof
  assume "filePathOf name = backupPathOf name"
  then have "length name = length (''backup/'' @ name)"
    by (simp add: filePathOf_def backupPathOf_def)
  then show False by simp
qed

lemma undoClear_eq:
  "undoClear name s =
     (if files s (backupPathOf name) \<noteq> None \<and> backupPathOf name \<notin> read_fault s
         \<and> filePathOf name \<notin> write_fault s
      then (True, s\<lparr>files := (files s)(filePathOf name := files s (backupPathOf name))\<rparr>)
      else (False, s))"
  by (auto simp: undoClear_def existsSync_def readFileSync_def writeFileSync_def Let_def
      split: option.splits)

lemma clearFile_returns:
  assumes "fst (clearFile name s) = Inr ()"
  shows "snd (clearFile name s)
      = s\<lparr>files := (files s)(backupPathOf name \<mapsto>
               (case files s (filePathOf name) of None \<Rightarrow> empty_array_text | Some c \<Rightarrow> c),
              filePathOf name \<mapsto> empty_array_text)\<rparr>"
    and "filePathOf name \<notin> write_fault s"
    and "backupPathOf name \<notin> write_fault s"
    and "files s (filePathOf name) \<noteq> None \<Longrightarrow> filePathOf name \<notin> read_fault s"
  using assms paths_differ [of name]
  by (auto simp: clearFile_def existsSync_def readFileSync_def writeFileSync_def mkdirSync_def
      Let_def fun_upd_twist split: option.splits if_splits sum.splits)

lemma readJsonArray_missing: "files s (filePathOf name) = None \<Longrightarrow> fst (readJsonArray name s) = []"
  by (auto simp: readJsonArray_def ensureJsonFile_def existsSync_def readFileSync_def
      writeFileSync_def JSON_parse_def empty_array_text_def Let_def split: option.splits)

lemma readJsonArray_cong:
  assumes "files s' (filePathOf name) = files s (filePathOf name)"
    and "files s (filePathOf name) \<noteq> None"
    and "read_fault s' = read_fault s"
  shows "fst (readJsonArray name s') = fst (readJsonArray name s)"
  using assms
  by (auto simp: readJsonArray_def ensureJsonFile_def existsSync_def readFileSync_def Let_def)

lemma readJsonArray_empty_text:
  "files s (filePathOf name) = Some empty_array_text \<Longrightarrow> fst (readJsonArray name s) = []"
  by (auto simp: readJsonArray_def ensureJsonFile_def existsSync_def readFileSync_def
      JSON_parse_def empty_array_text_def Let_def)

lemma clear_undo_file:
  assumes c: "fst (clearFile name s) = Inr ()"
    and u: "fst (undoClear name (snd (clearFile name s))) = True"
  shows "fst (readJsonArray name (snd (undoClear name (snd (clearFile name s)))))
           = fst (readJsonArray name s)"
    and "existsSync (filePathOf name) s \<Longrightarrow>
         files (snd (undoClear name (snd (clearFile name s)))) (filePathOf name)
           = files s (filePathOf name)"
proof -
  let ?s2 = "snd (undoClear name (snd (clearFile name s)))"
  note r = clearFile_returns [OF c]
  have f2: "files ?s2 (filePathOf name)
      = Some (case files s (filePathOf name) of None \<Rightarrow> empty_array_text | Some c \<Rightarrow> c)"
    and rf: "read_fault ?s2 = read_fault s"
    using u paths_differ [of name] by (auto simp: undoClear_eq r(1) split: if_splits)
  show "fst (readJsonArray name ?s2) = fst (readJsonArray name s)"
  proof (cases "files s (filePathOf name)")
    case None
    then show ?thesis
      using f2 by (simp add: readJsonArray_missing readJsonArray_empty_text)
  next
    case (Some c)
    then show ?thesis
      using f2 rf by (intro readJsonArray_cong) auto
  qed
  show "files ?s2 (filePathOf name) = files s (filePathOf name)"
    if "existsSync (filePathOf name) s"
    using that f2 by (auto simp: existsSync_def)
qed

text \<open>
  The file-backed clear fails closed: whenever \<^verbatim>\<open>clearFile\<close> throws (the directory,
  the read, the snapshot or the purge failed), the collection reads as it did before.
\<close>

lemma clearFile_throws_keeps:
  assumes "fst (clearFile name s) = Inl e"
  shows "fst (readJsonArray name (snd (clearFile name s))) = fst (readJsonArray name s)"
proof (cases "files s (filePathOf name)")
  case None
  have "files (snd (clearFile name s)) (filePathOf name) = None
      \<or> files (snd (clearFile name s)) (filePathOf name) = Some empty_array_text"
    using None
    by (auto simp: clearFile_def existsSync_def readFileSync_def writeFileSync_def mkdirSync_def
        Let_def split: option.splits if_splits sum.splits)
  then show ?thesis
    using None by (auto simp: readJsonArray_missing readJsonArray_empty_text)
next
  case (Some c)
  have "files (snd (clearFile name s)) (filePathOf name) = files s (filePathOf name)
      \<and> read_fault (snd (clearFile name s)) = read_fault s"
    using Some assms paths_differ [of name]
    by (auto simp: clearFile_def existsSync_def readFileSync_def writeFileSync_def mkdirSync_def
        Let_def split: option.splits if_splits sum.splits)
  then show ?thesis
    using Some by (intro readJsonArray_cong) auto
qed

text \<open>
  C10. In the file-backed server, a clear of a collection whose file does not exist
  creates an empty live file and an empty backup (when the directory and both writes
  succeed), so the undo that follows finds a backup and succeeds, restoring zero records,
  instead of answering that no backup is available.
\<close>

theorem clear_missing_then_undo:
  assumes missing: "\<not> existsSync (filePathOf name) s"
    and dir: "backupDir \<notin> mkdir_fault s"
    and wf: "filePathOf name \<notin> write_fault s"
    and wb: "backupPathOf name \<notin> write_fault s"
    and rb: "backupPathOf name \<notin> read_fault s"
  shows "fst (clearFile name s) = Inr ()
    \<and> files (snd (clearFile name s)) (filePathOf name) = Some empty_array_text
    \<and> files (snd (clearFile name s)) (backupPathOf name) = Some empty_array_text
    \<and> fst (undoClear name (snd (clearFile name s))) = True
    \<and> fst (readJsonArray name (snd (undoClear name (snd (clearFile name s))))) = []
    \<and> (name = ''appointments.json'' \<longrightarrow>
         fst (post_api_appointments_undo (snd (delete_api_appointments s)))
           = json (JObj [(''status'', JStr ''success''),
                         (''message'', JStr ''Appointments restored from backup'')]))
    \<and> (name = ''feedback.json'' \<longrightarrow>
         fst (post_api_feedbacks_undo (snd (delete_api_feedbacks s)))
           = json (JObj [(''status'', JStr ''success''),
                         (''message'', JStr ''Feedback restored from backup'')]))"
proof -
  let ?fp = "filePathOf name" and ?bp = "backupPathOf name"
  define s1 where
    "s1 = s\<lparr>files := (files s)(?fp \<mapsto> empty_array_text, ?bp \<mapsto> empty_array_text)\<rparr>"
  define s2 where "s2 = s1\<lparr>files := (files s1)(?fp \<mapsto> empty_array_text)\<rparr>"
  have c: "clearFile name s = (Inr (), s1)"
    using missing dir wf wb
    by (simp add: clearFile_def mkdirSync_def writeFileSync_def existsSync_def s1_def)
  have u: "undoClear name s1 = (True, s2)"
    using wf rb paths_differ [of name]
    by (simp add: undoClear_def existsSync_def readFileSync_def writeFileSync_def s1_def s2_def)
  have r: "fst (readJsonArray name s2) = []"
    by (simp add: readJsonArray_def ensureJsonFile_def existsSync_def readFileSync_def
        JSON_parse_def empty_array_text_def s2_def s1_def)
  have f: "files s1 ?fp = Some empty_array_text" "files s1 ?bp = Some empty_array_text"
    using paths_differ [of name] by (simp_all add: s1_def)
  have a: "fst (post_api_appointments_undo (snd (delete_api_appointments s)))
           = json (JObj [(''status'', JStr ''success''),
                         (''message'', JStr ''Appointments restored from backup'')])"
    if "name = ''appointments.json''"
    using c u unfolding that
    by (simp add: post_api_appointments_undo_def delete_api_appointments_def)
  have b: "fst (post_api_feedbacks_undo (snd (delete_api_feedbacks s)))
           = json (JObj [(''status'', JStr ''success''),
                         (''message'', JStr ''Feedback restored from backup'')])"
    if "name = ''feedback.json''"
    using c u unfolding that
    by (simp add: post_api_feedbacks_undo_def delete_api_feedbacks_def)
  show ?thesis
    using c u r f a b by simp
qed

theorem clear_missing_then_undo_witness:
  "\<not> existsSync (filePathOf ''appointments.json'') fs0
   \<and> backupDir \<notin> mkdir_fault fs0
   \<and> filePathOf ''appointments.json'' \<notin> write_fault fs0
   \<and> backupPathOf ''appointments.json'' \<notin> write_fault fs0
   \<and> backupPathOf ''appointments.json'' \<notin> read_fault fs0
   \<and> fst (post_api_appointments_undo (snd (delete_api_appointments fs0)))
           = json (JObj [(''status'', JStr ''success''),
                         (''message'', JStr ''Appointments restored from backup'')])
   \<and> fst (readJsonArray ''appointments.json''
         (snd (undoClear ''appointments.json'' (snd (clearFile ''appointments.json'' fs0))))) = []
   \<and> \<not> existsSync (filePathOf ''feedback.json'') fs0
   \<and> fst (post_api_feedbacks_undo (snd (delete_api_feedbacks fs0)))
           = json (JObj [(''status'', JStr ''success''),
                         (''message'', JStr ''Feedback restored from backup'')])"
  using clear_missing_then_undo [of "''appointments.json''" fs0]
    clear_missing_then_undo [of "''feedback.json''" fs0]
  by (simp add: fs0_def existsSync_def)

section \<open>Properties of the MongoDB server\<close>

lemma oid_versioned [simp]: "oid (versioned d) = oid d"
  by (simp add: versioned_def)

lemma oid_delete_v [simp]: "oid (delete_v d) = oid d"
  by (simp add: delete_v_def)

lemma delete_v_versioned [simp]: "delete_v (versioned (delete_v d)) = delete_v d"
  by (simp add: delete_v_def versioned_def delete_update_same delete_idem)

lemma insert_unordered_kept:
  "\<not> snd (insert_unordered ds stored) \<Longrightarrow>
     fst (insert_unordered ds stored) = stored @ map versioned ds"
  by (induction ds arbitrary: stored) (auto split: if_splits)

lemma insert_unordered_distinct:
  "distinct (map oid ds) \<Longrightarrow> set (map oid ds) \<inter> set (map oid stored) = {} \<Longrightarrow>
     insert_unordered ds stored = (stored @ map versioned ds, False)"
proof (induction ds arbitrary: stored)
  case Nil
  show ?case by simp
next
  case (Cons d ds)
  have "insert_unordered ds (stored @ [versioned d])
      = ((stored @ [versioned d]) @ map versioned ds, False)"
    using Cons.prems by (intro Cons.IH) auto
  then show ?case using Cons.prems by auto
qed

lemma fold_latest_mem:
  "fold (\<lambda>x best. if createdAt best < createdAt x then x else best) rest b \<in> set (b # rest)"
  by (induction rest arbitrary: b) (auto split: if_splits)

lemma latest_backup_append:
  assumes "collectionName b = name"
    and "\<forall>x\<in>set bs. collectionName x = name \<longrightarrow> createdAt x < createdAt b"
  shows "latest_backup name (bs @ [b]) = Some b"
proof (cases "filter (\<lambda>x. collectionName x = name) bs")
  case Nil
  then show ?thesis using assms(1) by (simp add: latest_backup_def)
next
  case (Cons x rest)
  let ?f = "\<lambda>x best. if createdAt best < createdAt x then x else best"
  have "fold ?f rest x \<in> set (filter (\<lambda>x. collectionName x = name) bs)"
    using fold_latest_mem [of rest x] Cons by simp
  then have "createdAt (fold ?f rest x) < createdAt b"
    using assms(2) by auto
  then show ?thesis
    using assms(1) Cons by (simp add: latest_backup_def)
qed

lemma clear_restore_db:
  fixes nt :: "string option" and now :: nat and name :: string and s :: db and m :: model
  assumes healthy: "fault s = Map.empty"
    and m: "modelMap name = Some m"
    and newer: "\<forall>b\<in>set (backups s). collectionName b = name \<longrightarrow> createdAt b < now"
    and ids: "distinct (map oid (coll s m))"
  defines "s0 \<equiv> createBackupForCollection name (coll s m) nt now s"
  shows "backups s0 = backups s @ [\<lparr>collectionName = name, createdAt = now,
             data = map delete_v (coll s m), note_text = nt\<rparr>]"
    and "deleteMany m s0 = Inr (s0\<lparr>coll := (coll s)(m := [])\<rparr>)"
    and "restoreLatestBackupForCollection name (s0\<lparr>coll := (coll s)(m := [])\<rparr>)
         = (Inr \<lparr>ok = True, message = ''Restored from latest backup'',
                 restoredCount = Some (length (coll s m))\<rparr>,
            s0\<lparr>coll := (coll s)(m := map versioned (map delete_v (coll s m)))\<rparr>)"
proof -
  let ?b = "\<lparr>collectionName = name, createdAt = now, data = map delete_v (coll s m),
             note_text = nt\<rparr>"
  have b: "s0 = s\<lparr>backups := backups s @ [?b]\<rparr>"
    using healthy by (simp add: s0_def createBackupForCollection_def Backup_create_def)
  show "backups s0 = backups s @ [?b]"
    by (simp add: b)
  show "deleteMany m s0 = Inr (s0\<lparr>coll := (coll s)(m := [])\<rparr>)"
    using healthy by (simp add: deleteMany_def b)
  have l: "latest_backup name (backups s @ [?b]) = Some ?b"
    using newer by (simp add: latest_backup_append)
  have dd: "delete_v \<circ> delete_v = delete_v"
    by (simp add: fun_eq_iff delete_v_def delete_idem)
  have i: "insert_unordered (map delete_v (coll s m)) []
      = ([] @ map versioned (map delete_v (coll s m)), False)"
    using ids by (intro insert_unordered_distinct) (simp_all add: comp_def)
  show "restoreLatestBackupForCollection name (s0\<lparr>coll := (coll s)(m := [])\<rparr>)
         = (Inr \<lparr>ok = True, message = ''Restored from latest backup'',
                 restoredCount = Some (length (coll s m))\<rparr>,
            s0\<lparr>coll := (coll s)(m := map versioned (map delete_v (coll s m)))\<rparr>)"
  proof (cases "coll s m = []")
    case True
    then show ?thesis
      using healthy m l
      by (simp add: restoreLatestBackupForCollection_def Backup_findOne_latest_def
          deleteMany_def b)
  next
    case False
    then show ?thesis
      using healthy m l i
      by (simp add: restoreLatestBackupForCollection_def Backup_findOne_latest_def
          deleteMany_def insertMany_def b dd Let_def)
  qed
qed

section \<open>Clear followed by undo\<close>

lemma list_item_restored: "list_item (versioned (delete_v d)) = list_item d"
  by (simp add: list_item_def versioned_def delete_v_def delete_update delete_update_same
      delete_idem)

lemma ts_key_restored: "ts_key (versioned (delete_v d)) = ts_key d"
  by (simp add: ts_key_def versioned_def delete_v_def update_conv' delete_conv')

lemma insort_desc_map:
  "(\<And>x. ts_key (f x) = ts_key x) \<Longrightarrow> insort_desc (f d) (map f xs) = map f (insort_desc d xs)"
  by (induction xs) auto

lemma sort_timestamp_desc_map:
  assumes "\<And>x. ts_key (f x) = ts_key x"
  shows "sort_timestamp_desc (map f xs) = map f (sort_timestamp_desc xs)"
  by (induction xs) (simp_all add: sort_timestamp_desc_def insort_desc_map [OF assms])

lemma listing_restored:
  "map list_item (sort_timestamp_desc (map (versioned \<circ> delete_v) xs))
     = map list_item (sort_timestamp_desc xs)"
  by (simp add: sort_timestamp_desc_map [of "versioned \<circ> delete_v"] ts_key_restored
      list_item_restored)

lemma clear_undo_appointments_db:
  assumes healthy: "fault d = Map.empty"
    and newer: "\<forall>b\<in>set (backups d). collectionName b = ''appointments'' \<longrightarrow> createdAt b < now"
    and ids: "distinct (map oid (coll d Appointment))"
  defines "d1 \<equiv> snd (delete_api_appointments_db now d)"
  defines "d2 \<equiv> snd (post_api_appointments_undo_db d1)"
  shows "status (fst (delete_api_appointments_db now d)) = 200"
    and "coll d1 Appointment = []"
    and "fst (post_api_appointments_undo_db d1)
          = json (JObj [(''status'', JStr ''success''),
                        (''message'', JStr ''Restored from latest backup''),
                        (''restored'', JNum (int (length (coll d Appointment))))])"
    and "map delete_v (coll d2 Appointment) = map delete_v (coll d Appointment)"
    and "fst (get_api_appointments_db d2) = fst (get_api_appointments_db d)"
proof -
  have m: "modelMap ''appointments'' = Some Appointment"
    by (simp add: modelMap_def)
  note r = clear_restore_db [OF healthy m newer ids, of "Some ''Cleared by admin''"]
  let ?s0 = "createBackupForCollection ''appointments'' (coll d Appointment)
               (Some ''Cleared by admin'') now d"
  have f0: "fault ?s0 = Map.empty"
    using healthy by (simp add: createBackupForCollection_def Backup_create_def)
  have c: "delete_api_appointments_db now d
      = (json (JObj [(''status'', JStr ''success''),
           (''message'', JStr
              ''All appointments cleared. You can undo (restores the latest backup).'')]),
         ?s0\<lparr>coll := (coll d)(Appointment := [])\<rparr>)"
    using healthy r(2) by (simp add: delete_api_appointments_db_def find_lean_def)
  show "status (fst (delete_api_appointments_db now d)) = 200"
    by (simp add: c json_def)
  show "coll d1 Appointment = []"
    by (simp add: d1_def c)
  have u: "post_api_appointments_undo_db d1
      = (json (JObj [(''status'', JStr ''success''),
                        (''message'', JStr ''Restored from latest backup''),
                        (''restored'', JNum (int (length (coll d Appointment))))]),
         ?s0\<lparr>coll := (coll d)(Appointment := map versioned (map delete_v (coll d Appointment)))\<rparr>)"
    by (simp add: d1_def c post_api_appointments_undo_db_def r(3) undo_success_body_def)
  show "fst (post_api_appointments_undo_db d1)
          = json (JObj [(''status'', JStr ''success''),
                        (''message'', JStr ''Restored from latest backup''),
                        (''restored'', JNum (int (length (coll d Appointment))))])"
    by (simp add: u)
  show "map delete_v (coll d2 Appointment) = map delete_v (coll d Appointment)"
    by (simp add: d2_def u comp_def)
  show "fst (get_api_appointments_db d2) = fst (get_api_appointments_db d)"
    using healthy f0
    by (simp add: d2_def u get_api_appointments_db_def find_sort_lean_def listing_restored)
qed

lemmas restore_defs = restoreLatestBackupForCollection_def Backup_findOne_latest_def
  deleteMany_def insertMany_def Let_def

lemma restore_ok_contents:
  assumes r: "fst (restoreLatestBackupForCollection name d) = Inr res" and k: "ok res"
  shows "\<exists>b m. latest_backup name (backups d) = Some b \<and> modelMap name = Some m
     \<and> res = \<lparr>ok = True, message = ''Restored from latest backup'',
               restoredCount = Some (length (data b))\<rparr>
     \<and> coll (snd (restoreLatestBackupForCollection name d)) m
          = map versioned (map delete_v (data b))"
proof (cases "fault d BackupFindOne")
  case (Some msg)
  then show ?thesis using r by (simp add: restore_defs)
next
  case f: None
  show ?thesis
  proof (cases "latest_backup name (backups d)")
    case None
    then show ?thesis using r k f by (auto simp: restore_defs)
  next
    case b: (Some b)
    show ?thesis
    proof (cases "modelMap name")
      case None
      then show ?thesis using r k f b by (auto simp: restore_defs)
    next
      case m: (Some m)
      show ?thesis
      proof (cases "fault d DeleteMany")
        case (Some msg)
        then show ?thesis using r k f b m by (auto simp: restore_defs)
      next
        case dm: None
        show ?thesis
        proof (cases "data b = []")
          case True
          then show ?thesis using r k f b m dm by (auto simp: restore_defs)
        next
          case ne: False
          show ?thesis
          proof (cases "fault d InsertMany")
            case (Some msg)
            then show ?thesis using r k f b m dm ne by (auto simp: restore_defs)
          next
            case im: None
            let ?ins = "insert_unordered (map delete_v (data b)) []"
            have ns: "\<not> snd ?ins"
              using r k f b m dm ne im by (auto simp: restore_defs split: prod.splits if_splits)
            from insert_unordered_kept [OF ns]
            have "?ins = (map versioned (map delete_v (data b)), False)"
              using ns by (simp add: prod_eq_iff)
            then show ?thesis
              using r k f b m dm ne im by (auto simp: restore_defs)
          qed
        qed
      qed
    qed
  qed
qed

lemma clear_undo_feedbacks_db:
  assumes healthy: "fault d = Map.empty"
    and newer: "\<forall>b\<in>set (backups d). collectionName b = ''feedback'' \<longrightarrow> createdAt b < now"
    and ids: "distinct (map oid (coll d Feedback))"
  defines "d1 \<equiv> snd (delete_api_feedbacks_db now d)"
  defines "d2 \<equiv> snd (post_api_feedbacks_undo_db d1)"
  shows "status (fst (delete_api_feedbacks_db now d)) = 200"
    and "coll d1 Feedback = []"
    and "fst (post_api_feedbacks_undo_db d1)
          = json (JObj [(''status'', JStr ''success''),
                        (''message'', JStr ''Restored from latest backup''),
                        (''restored'', JNum (int (length (coll d Feedback))))])"
    and "map delete_v (coll d2 Feedback) = map delete_v (coll d Feedback)"
    and "fst (get_api_feedbacks_db d2) = fst (get_api_feedbacks_db d)"
proof -
  have m: "modelMap ''feedback'' = Some Feedback"
    by (simp add: modelMap_def)
  note r = clear_restore_db [OF healthy m newer ids, of "Some ''Cleared by admin''"]
  let ?s0 = "createBackupForCollection ''feedback'' (coll d Feedback)
               (Some ''Cleared by admin'') now d"
  have f0: "fault ?s0 = Map.empty"
    using healthy by (simp add: createBackupForCollection_def Backup_create_def)
  have c: "delete_api_feedbacks_db now d
      = (json (JObj [(''status'', JStr ''success''),
           (''message'', JStr
              ''All feedback cleared. You can undo (restores the latest backup).'')]),
         ?s0\<lparr>coll := (coll d)(Feedback := [])\<rparr>)"
    using healthy r(2) by (simp add: delete_api_feedbacks_db_def find_lean_def)
  show "status (fst (delete_api_feedbacks_db now d)) = 200"
    by (simp add: c json_def)
  show "coll d1 Feedback = []"
    by (simp add: d1_def c)
  have u: "post_api_feedbacks_undo_db d1
      = (json (JObj [(''status'', JStr ''success''),
                        (''message'', JStr ''Restored from latest backup''),
                        (''restored'', JNum (int (length (coll d Feedback))))]),
         ?s0\<lparr>coll := (coll d)(Feedback := map versioned (map delete_v (coll d Feedback)))\<rparr>)"
    by (simp add: d1_def c post_api_feedbacks_undo_db_def r(3) undo_success_body_def)
  show "fst (post_api_feedbacks_undo_db d1)
          = json (JObj [(''status'', JStr ''success''),
                        (''message'', JStr ''Restored from latest backup''),
                        (''restored'', JNum (int (length (coll d Feedback))))])"
    by (simp add: u)
  show "map delete_v (coll d2 Feedback) = map delete_v (coll d Feedback)"
    by (simp add: d2_def u comp_def)
  show "fst (get_api_feedbacks_db d2) = fst (get_api_feedbacks_db d)"
    using healthy f0
    by (simp add: d2_def u get_api_feedbacks_db_def find_sort_lean_def listing_restored)
qed

text \<open>
  Where clear followed at once by undo does give back exactly the records the collection
  held, with the same count, identifiers and field values, in the same order. For the
  file-backed server this holds whenever the clear returns and the undo reports success.
  For the MongoDB server it holds when no database operation fails, the clock reading of
  the clear is later than the creation time of every earlier backup of the collection,
  and the ids of the documents are distinct; the documents come back equal up to the
  library's version key, which no response shows, and the listing is the one from before
  the clear.
\<close>

theorem round_trip_without_faults:
  "(fst (clearFile name s) = Inr () \<and> fst (undoClear name (snd (clearFile name s))) = True \<longrightarrow>
      fst (readJsonArray name (snd (undoClear name (snd (clearFile name s)))))
        = fst (readJsonArray name s)
      \<and> (existsSync (filePathOf name) s \<longrightarrow>
           files (snd (undoClear name (snd (clearFile name s)))) (filePathOf name)
             = files s (filePathOf name)))
   \<and> (fault d = Map.empty
        \<and> (\<forall>b\<in>set (backups d). collectionName b = ''appointments'' \<longrightarrow> createdAt b < now)
        \<and> distinct (map oid (coll d Appointment)) \<longrightarrow>
      status (fst (delete_api_appointments_db now d)) = 200
      \<and> coll (snd (delete_api_appointments_db now d)) Appointment = []
      \<and> fst (post_api_appointments_undo_db (snd (delete_api_appointments_db now d)))
          = json (JObj [(''status'', JStr ''success''),
                        (''message'', JStr ''Restored from latest backup''),
                        (''restored'', JNum (int (length (coll d Appointment))))])
      \<and> map delete_v (coll (snd (post_api_appointments_undo_db
             (snd (delete_api_appointments_db now d)))) Appointment)
          = map delete_v (coll d Appointment)
      \<and> fst (get_api_appointments_db (snd (post_api_appointments_undo_db
             (snd (delete_api_appointments_db now d)))))
          = fst (get_api_appointments_db d))
   \<and> (fault d = Map.empty
        \<and> (\<forall>b\<in>set (backups d). collectionName b = ''feedback'' \<longrightarrow> createdAt b < now)
        \<and> distinct (map oid (coll d Feedback)) \<longrightarrow>
      status (fst (delete_api_feedbacks_db now d)) = 200
      \<and> coll (snd (delete_api_feedbacks_db now d)) Feedback = []
      \<and> fst (post_api_feedbacks_undo_db (snd (delete_api_feedbacks_db now d)))
          = json (JObj [(''status'', JStr ''success''),
                        (''message'', JStr ''Restored from latest backup''),
                        (''restored'', JNum (int (length (coll d Feedback))))])
      \<and> map delete_v (coll (snd (post_api_feedbacks_undo_db
             (snd (delete_api_feedbacks_db now d)))) Feedback)
          = map delete_v (coll d Feedback)
      \<and> fst (get_api_feedbacks_db (snd (post_api_feedbacks_undo_db
             (snd (delete_api_feedbacks_db now d)))))
          = fst (get_api_feedbacks_db d))"
proof (intro conjI impI)
  assume "fst (clearFile name s) = Inr () \<and> fst (undoClear name (snd (clearFile name s))) = True"
  then have c: "fst (clearFile name s) = Inr ()"
    and u: "fst (undoClear name (snd (clearFile name s))) = True"
    by simp_all
  show "fst (readJsonArray name (snd (undoClear name (snd (clearFile name s)))))
        = fst (readJsonArray name s)"
    by (rule clear_undo_file(1) [OF c u])
  show "files (snd (undoClear name (snd (clearFile name s)))) (filePathOf name)
             = files s (filePathOf name)"
    if "existsSync (filePathOf name) s"
    by (rule clear_undo_file(2) [OF c u that])
next
  assume a: "fault d = Map.empty
        \<and> (\<forall>b\<in>set (backups d). collectionName b = ''appointments'' \<longrightarrow> createdAt b < now)
        \<and> distinct (map oid (coll d Appointment))"
  then have h: "fault d = Map.empty"
    "\<forall>b\<in>set (backups d). collectionName b = ''appointments'' \<longrightarrow> createdAt b < now"
    "distinct (map oid (coll d Appointment))"
    by simp_all
  note r = clear_undo_appointments_db [OF h]
  show "status (fst (delete_api_appointments_db now d)) = 200" by (rule r(1))
  show "coll (snd (delete_api_appointments_db now d)) Appointment = []" by (rule r(2))
  show "fst (post_api_appointments_undo_db (snd (delete_api_appointments_db now d)))
          = json (JObj [(''status'', JStr ''success''),
                        (''message'', JStr ''Restored from latest backup''),
                        (''restored'', JNum (int (length (coll d Appointment))))])"
    by (rule r(3))
  show "map delete_v (coll (snd (post_api_appointments_undo_db
             (snd (delete_api_appointments_db now d)))) Appointment)
          = map delete_v (coll d Appointment)"
    by (rule r(4))
  show "fst (get_api_appointments_db (snd (post_api_appointments_undo_db
             (snd (delete_api_appointments_db now d)))))
          = fst (get_api_appointments_db d)"
    by (rule r(5))
next
  assume a: "fault d = Map.empty
        \<and> (\<forall>b\<in>set (backups d). collectionName b = ''feedback'' \<longrightarrow> createdAt b < now)
        \<and> distinct (map oid (coll d Feedback))"
  then have h: "fault d = Map.empty"
    "\<forall>b\<in>set (backups d). collectionName b = ''feedback'' \<longrightarrow> createdAt b < now"
    "distinct (map oid (coll d Feedback))"
    by simp_all
  note r = clear_undo_feedbacks_db [OF h]
  show "status (fst (delete_api_feedbacks_db now d)) = 200" by (rule r(1))
  show "coll (snd (delete_api_feedbacks_db now d)) Feedback = []" by (rule r(2))
  show "fst (post_api_feedbacks_undo_db (snd (delete_api_feedbacks_db now d)))
          = json (JObj [(''status'', JStr ''success''),
                        (''message'', JStr ''Restored from latest backup''),
                        (''restored'', JNum (int (length (coll d Feedback))))])"
    by (rule r(3))
  show "map delete_v (coll (snd (post_api_feedbacks_undo_db
             (snd (delete_api_feedbacks_db now d)))) Feedback)
          = map delete_v (coll d Feedback)"
    by (rule r(4))
  show "fst (get_api_feedbacks_db (snd (post_api_feedbacks_undo_db
             (snd (delete_api_feedbacks_db now d)))))
          = fst (get_api_feedbacks_db d)"
    by (rule r(5))
qed

lemma fs1_clear: "fst (clearFile ''appointments.json'' fs1) = Inr ()"
  by (simp add: clearFile_def fs1_def mkdirSync_def existsSync_def readFileSync_def
      writeFileSync_def filePathOf_def backupPathOf_def Let_def)

lemma fs1_undo: "fst (undoClear ''appointments.json'' (snd (clearFile ''appointments.json'' fs1))) = True"
  by (simp add: undoClear_eq clearFile_returns(1) [OF fs1_clear])
    (simp add: fs1_def filePathOf_def backupPathOf_def)

lemma fs1_read: "fst (readJsonArray ''appointments.json'' fs1) = [asha]"
  by (simp add: readJsonArray_def ensureJsonFile_def existsSync_def readFileSync_def
      JSON_parse_def fs1_def filePathOf_def Let_def)

theorem round_trip_without_faults_example:
  "fst (clearFile ''appointments.json'' fs1) = Inr ()
   \<and> fst (undoClear ''appointments.json'' (snd (clearFile ''appointments.json'' fs1))) = True
   \<and> fst (readJsonArray ''appointments.json''
        (snd (undoClear ''appointments.json'' (snd (clearFile ''appointments.json'' fs1)))))
       = [asha]
   \<and> existsSync (filePathOf ''appointments.json'') fs1
   \<and> files (snd (undoClear ''appointments.json'' (snd (clearFile ''appointments.json'' fs1))))
        (filePathOf ''appointments.json'') = Some (Json (JArr [asha]))
   \<and> fault db1 = Map.empty
   \<and> distinct (map oid (coll db1 Appointment))
   \<and> fst (post_api_appointments_undo_db (snd (delete_api_appointments_db 1700000000500 db1)))
          = json (JObj [(''status'', JStr ''success''),
                        (''message'', JStr ''Restored from latest backup''),
                        (''restored'', JNum 1)])
   \<and> map delete_v (coll (snd (post_api_appointments_undo_db
             (snd (delete_api_appointments_db 1700000000500 db1)))) Appointment)
          = [delete_v asha_doc]
   \<and> coll (snd (post_api_feedbacks_undo_db
             (snd (delete_api_feedbacks_db 1700000000500 db1)))) Feedback = []"
  using round_trip_without_faults [of "''appointments.json''" fs1 db1 1700000000500]
    fs1_clear fs1_undo fs1_read
  by (simp add: db1_def existsSync_def) (simp add: fs1_def filePathOf_def)

text \<open>
  C2. In the MongoDB server a clear whose snapshot fails still answers success, and the
  undo that follows answers success too, but it installs the latest snapshot there is,
  an older one. Here the collection held Bina's appointment; after clear and undo it
  holds Asha's, from the earlier clear, and Bina's record is gone.
\<close>

theorem round_trip_broken_when_backup_fails:
  "coll db3_backup_down Appointment = [bina_doc]
   \<and> status (fst (delete_api_appointments_db 1700090000000 db3_backup_down)) = 200
   \<and> fst (post_api_appointments_undo_db
          (snd (delete_api_appointments_db 1700090000000 db3_backup_down)))
        = json (JObj [(''status'', JStr ''success''),
                      (''message'', JStr ''Restored from latest backup''),
                      (''restored'', JNum 1)])
   \<and> coll (snd (post_api_appointments_undo_db
          (snd (delete_api_appointments_db 1700090000000 db3_backup_down)))) Appointment
        = [versioned (delete_v asha_doc)]
   \<and> map oid (coll (snd (post_api_appointments_undo_db
          (snd (delete_api_appointments_db 1700090000000 db3_backup_down)))) Appointment)
        \<noteq> map oid (coll db3_backup_down Appointment)"
  by (simp add: delete_api_appointments_db_def find_lean_def createBackupForCollection_def
      Backup_create_def db3_backup_down_def post_api_appointments_undo_db_def restore_defs
      latest_backup_def modelMap_def snapshot1_def undo_success_body_def json_def
      asha_doc_def bina_doc_def delete_v_def versioned_def)

section \<open>Undo without a snapshot, and undo twice\<close>

lemma delete_v_idem [simp]: "delete_v (delete_v d) = delete_v d"
  by (simp add: delete_v_def delete_idem)

lemma restore_without_backup:
  assumes "fault d BackupFindOne = None" and "name \<notin> set (map collectionName (backups d))"
  shows "restoreLatestBackupForCollection name d
      = (Inr \<lparr>ok = False, message = ''No backup available'', restoredCount = None\<rparr>, d)"
proof -
  have "filter (\<lambda>b. collectionName b = name) (backups d) = []"
    using assms(2) by (auto simp: filter_empty_conv)
  then have "latest_backup name (backups d) = None"
    by (simp add: latest_backup_def)
  then show ?thesis
    using assms(1) by (simp add: restore_defs)
qed

text \<open>
  C3. An undo on a collection that has no snapshot is refused with status 400 and the
  error "No backup available"; it neither succeeds nor answers with a server error, and
  it leaves the store as it was. (In the MongoDB server the query for the latest backup
  has to complete for the server to see that there is none.)
\<close>

theorem undo_without_backup_refused:
  "(\<not> existsSync (backupPathOf name) s \<longrightarrow> undoClear name s = (False, s))
   \<and> (\<not> existsSync (backupPathOf ''appointments.json'') s \<longrightarrow>
        post_api_appointments_undo s
          = (status_json 400 (JObj [(''error'', JStr ''No backup available'')]), s))
   \<and> (\<not> existsSync (backupPathOf ''feedback.json'') s \<longrightarrow>
        post_api_feedbacks_undo s
          = (status_json 400 (JObj [(''error'', JStr ''No backup available'')]), s))
   \<and> (fault d BackupFindOne = None \<and> cname \<notin> set (map collectionName (backups d)) \<longrightarrow>
        restoreLatestBackupForCollection cname d
          = (Inr \<lparr>ok = False, message = ''No backup available'', restoredCount = None\<rparr>, d))
   \<and> (fault d BackupFindOne = None \<and> ''appointments'' \<notin> set (map collectionName (backups d)) \<longrightarrow>
        post_api_appointments_undo_db d
          = (status_json 400 (JObj [(''error'', JStr ''No backup available'')]), d))
   \<and> (fault d BackupFindOne = None \<and> ''feedback'' \<notin> set (map collectionName (backups d)) \<longrightarrow>
        post_api_feedbacks_undo_db d
          = (status_json 400 (JObj [(''error'', JStr ''No backup available'')]), d))"
  by (simp add: undoClear_eq existsSync_def post_api_appointments_undo_def
      post_api_feedbacks_undo_def restore_without_backup post_api_appointments_undo_db_def
      post_api_feedbacks_undo_db_def)

theorem undo_without_backup_refused_witness:
  "\<not> existsSync (backupPathOf ''appointments.json'') fs1
   \<and> post_api_appointments_undo fs1
          = (status_json 400 (JObj [(''error'', JStr ''No backup available'')]), fs1)
   \<and> \<not> existsSync (backupPathOf ''feedback.json'') fs1
   \<and> post_api_feedbacks_undo fs1
          = (status_json 400 (JObj [(''error'', JStr ''No backup available'')]), fs1)
   \<and> fault db1 BackupFindOne = None
   \<and> ''appointments'' \<notin> set (map collectionName (backups db1))
   \<and> status (fst (post_api_appointments_undo_db db1)) = 400
   \<and> snd (post_api_appointments_undo_db db1) = db1
   \<and> ''feedback'' \<notin> set (map collectionName (backups db1))
   \<and> status (fst (post_api_feedbacks_undo_db db1)) = 400"
  using undo_without_backup_refused
    [where name = "''appointments.json''" and s = fs1 and d = db1 and cname = "''appointments''"]
  by (simp add: existsSync_def fs1_def backupPathOf_def db1_def status_json_def)

text \<open>
  C4. Undo twice in a row: the second undo gives the same answer and leaves the same
  store as the first. Each successful undo installs the contents of the same latest
  snapshot.
\<close>

theorem undo_twice_same_contents:
  "undoClear name (snd (undoClear name s)) = undoClear name s
   \<and> post_api_appointments_undo (snd (post_api_appointments_undo s))
        = post_api_appointments_undo s
   \<and> post_api_feedbacks_undo (snd (post_api_feedbacks_undo s)) = post_api_feedbacks_undo s
   \<and> (fst (undoClear name s) \<longrightarrow>
        files (snd (undoClear name s)) (filePathOf name) = files s (backupPathOf name)
        \<and> files (snd (undoClear name (snd (undoClear name s)))) (filePathOf name)
            = files s (backupPathOf name))
   \<and> restoreLatestBackupForCollection cname (snd (restoreLatestBackupForCollection cname d))
        = restoreLatestBackupForCollection cname d
   \<and> post_api_appointments_undo_db (snd (post_api_appointments_undo_db d))
        = post_api_appointments_undo_db d
   \<and> post_api_feedbacks_undo_db (snd (post_api_feedbacks_undo_db d))
        = post_api_feedbacks_undo_db d
   \<and> (fst (restoreLatestBackupForCollection cname d) = Inr res \<and> ok res
        \<and> latest_backup cname (backups d) = Some b \<and> modelMap cname = Some m \<longrightarrow>
        coll (snd (restoreLatestBackupForCollection cname d)) m
          = map versioned (map delete_v (data b))
        \<and> coll (snd (restoreLatestBackupForCollection cname
              (snd (restoreLatestBackupForCollection cname d)))) m
          = map versioned (map delete_v (data b)))"
proof -
  have f: "undoClear name (snd (undoClear name s)) = undoClear name s" for name s
    using paths_differ [of name] by (simp add: undoClear_eq)
  have r: "restoreLatestBackupForCollection name (snd (restoreLatestBackupForCollection name d))
      = restoreLatestBackupForCollection name d" for name d
    by (auto simp: restore_defs split: option.splits sum.splits prod.splits if_splits)
  have sa: "snd (post_api_appointments_undo s) = snd (undoClear ''appointments.json'' s)" for s
    by (simp add: post_api_appointments_undo_def split: prod.splits bool.splits)
  have sf: "snd (post_api_feedbacks_undo s) = snd (undoClear ''feedback.json'' s)" for s
    by (simp add: post_api_feedbacks_undo_def split: prod.splits bool.splits)
  have da: "snd (post_api_appointments_undo_db d)
      = snd (restoreLatestBackupForCollection ''appointments'' d)" for d
    by (simp add: post_api_appointments_undo_db_def split: prod.splits sum.splits)
  have df: "snd (post_api_feedbacks_undo_db d)
      = snd (restoreLatestBackupForCollection ''feedback'' d)" for d
    by (simp add: post_api_feedbacks_undo_db_def split: prod.splits sum.splits)
  have 1: "post_api_appointments_undo (snd (post_api_appointments_undo s))
        = post_api_appointments_undo s"
    unfolding sa by (simp add: post_api_appointments_undo_def f)
  have 2: "post_api_feedbacks_undo (snd (post_api_feedbacks_undo s)) = post_api_feedbacks_undo s"
    unfolding sf by (simp add: post_api_feedbacks_undo_def f)
  have 3: "post_api_appointments_undo_db (snd (post_api_appointments_undo_db d))
        = post_api_appointments_undo_db d"
    unfolding da by (simp add: post_api_appointments_undo_db_def r)
  have 4: "post_api_feedbacks_undo_db (snd (post_api_feedbacks_undo_db d))
        = post_api_feedbacks_undo_db d"
    unfolding df by (simp add: post_api_feedbacks_undo_db_def r)
  have 5: "files (snd (undoClear name s)) (filePathOf name) = files s (backupPathOf name)"
    if "fst (undoClear name s)"
    using that by (simp add: undoClear_eq split: if_splits)
  have 6: "coll (snd (restoreLatestBackupForCollection cname d)) m
          = map versioned (map delete_v (data b))"
    if "fst (restoreLatestBackupForCollection cname d) = Inr res \<and> ok res
        \<and> latest_backup cname (backups d) = Some b \<and> modelMap cname = Some m"
    using restore_ok_contents [of cname d res] that by auto
  show ?thesis
    using 1 2 3 4 5 6 by (simp add: f r)
qed

theorem undo_twice_same_contents_witness:
  "fst (undoClear ''appointments.json'' fs2)
   \<and> files (snd (undoClear ''appointments.json'' (snd (undoClear ''appointments.json'' fs2))))
        (filePathOf ''appointments.json'') = Some (Json (JArr [asha]))
   \<and> fst (restoreLatestBackupForCollection ''appointments'' db2)
        = Inr \<lparr>ok = True, message = ''Restored from latest backup'', restoredCount = Some 1\<rparr>
   \<and> coll (snd (restoreLatestBackupForCollection ''appointments''
          (snd (restoreLatestBackupForCollection ''appointments'' db2)))) Appointment
        = [versioned (delete_v asha_doc)]"
proof -
  have u: "fst (undoClear ''appointments.json'' fs2)"
    by (simp add: undoClear_eq fs2_def filePathOf_def backupPathOf_def)
  have l: "latest_backup ''appointments'' (backups db2) = Some snapshot1"
    by (simp add: latest_backup_def db2_def snapshot1_def snapshot2_def)
  have m: "modelMap ''appointments'' = Some Appointment"
    by (simp add: modelMap_def)
  have r: "fst (restoreLatestBackupForCollection ''appointments'' db2)
        = Inr \<lparr>ok = True, message = ''Restored from latest backup'', restoredCount = Some 1\<rparr>"
    by (simp add: restore_defs latest_backup_def modelMap_def db2_def snapshot1_def
        snapshot2_def)
  show ?thesis
    using undo_twice_same_contents
      [where name = "''appointments.json''" and s = fs2 and d = db2
        and cname = "''appointments''" and m = Appointment and b = snapshot1
        and res = "\<lparr>ok = True, message = ''Restored from latest backup'',
                   restoredCount = Some 1\<rparr>"]
      u l m r
    by (simp add: fs2_def backupPathOf_def snapshot1_def filePathOf_def)
qed

section \<open>The undo response\<close>

lemma undo_db_success:
  assumes "fst (restoreLatestBackupForCollection cname d) = Inr res" and "ok res"
    and "latest_backup cname (backups d) = Some b"
  shows "undo_success_body res
      = JObj [(''status'', JStr ''success''), (''message'', JStr ''Restored from latest backup''),
              (''restored'', JNum (int (length (data b))))]"
  using restore_ok_contents [OF assms(1,2)] assms(3) by (auto simp: undo_success_body_def)

lemma undo_db_count:
  assumes "fst (restoreLatestBackupForCollection cname d) = Inr res" and "ok res"
    and "latest_backup cname (backups d) = Some b" and "modelMap cname = Some m"
  shows "length (coll (snd (restoreLatestBackupForCollection cname d)) m) = length (data b)"
  using restore_ok_contents [OF assms(1,2)] assms(3,4) by auto

lemma undo_appointments_db_200:
  assumes "status (fst (post_api_appointments_undo_db d)) = 200"
  shows "\<exists>res. fst (restoreLatestBackupForCollection ''appointments'' d) = Inr res \<and> ok res
    \<and> post_api_appointments_undo_db d
        = (json (undo_success_body res),
           snd (restoreLatestBackupForCollection ''appointments'' d))"
  using assms
  by (auto simp: post_api_appointments_undo_db_def status_json_def json_def
      split: prod.splits sum.splits if_splits)

lemma undo_feedbacks_db_200:
  assumes "status (fst (post_api_feedbacks_undo_db d)) = 200"
  shows "\<exists>res. fst (restoreLatestBackupForCollection ''feedback'' d) = Inr res \<and> ok res
    \<and> post_api_feedbacks_undo_db d
        = (json (undo_success_body res),
           snd (restoreLatestBackupForCollection ''feedback'' d))"
  using assms
  by (auto simp: post_api_feedbacks_undo_db_def status_json_def json_def
      split: prod.splits sum.splits if_splits)

text \<open>
  C7, as the code has it. In the MongoDB server every successful undo response is
  \<^verbatim>\<open>{status: "success", message, restored: N}\<close>, where N is the number of records of
  the latest snapshot, the one applied, and the collection holds N records afterwards.
  In the file-backed server a successful undo response is
  \<^verbatim>\<open>{status: "success", message}\<close> and carries no count.
\<close>

theorem undo_response_count:
  "(status (fst (post_api_appointments_undo_db d)) = 200
      \<and> latest_backup ''appointments'' (backups d) = Some b \<longrightarrow>
      fst (post_api_appointments_undo_db d)
        = json (JObj [(''status'', JStr ''success''),
                      (''message'', JStr ''Restored from latest backup''),
                      (''restored'', JNum (int (length (data b))))])
      \<and> length (coll (snd (post_api_appointments_undo_db d)) Appointment) = length (data b))
   \<and> (status (fst (post_api_feedbacks_undo_db d)) = 200
      \<and> latest_backup ''feedback'' (backups d) = Some b' \<longrightarrow>
      fst (post_api_feedbacks_undo_db d)
        = json (JObj [(''status'', JStr ''success''),
                      (''message'', JStr ''Restored from latest backup''),
                      (''restored'', JNum (int (length (data b'))))])
      \<and> length (coll (snd (post_api_feedbacks_undo_db d)) Feedback) = length (data b'))
   \<and> (status (fst (post_api_appointments_undo s)) = 200 \<longrightarrow>
      fst (post_api_appointments_undo s)
        = json (JObj [(''status'', JStr ''success''),
                      (''message'', JStr ''Appointments restored from backup'')]))
   \<and> (status (fst (post_api_feedbacks_undo s)) = 200 \<longrightarrow>
      fst (post_api_feedbacks_undo s)
        = json (JObj [(''status'', JStr ''success''),
                      (''message'', JStr ''Feedback restored from backup'')]))"
proof (intro conjI impI)
  assume a: "status (fst (post_api_appointments_undo_db d)) = 200
      \<and> latest_backup ''appointments'' (backups d) = Some b"
  then obtain res where r: "fst (restoreLatestBackupForCollection ''appointments'' d) = Inr res"
    "ok res" "post_api_appointments_undo_db d
        = (json (undo_success_body res),
           snd (restoreLatestBackupForCollection ''appointments'' d))"
    using undo_appointments_db_200 [of d] by auto
  have m: "modelMap ''appointments'' = Some Appointment" by (simp add: modelMap_def)
  from a have l: "latest_backup ''appointments'' (backups d) = Some b" by simp
  show "fst (post_api_appointments_undo_db d)
        = json (JObj [(''status'', JStr ''success''),
                      (''message'', JStr ''Restored from latest backup''),
                      (''restored'', JNum (int (length (data b))))])"
    by (simp add: r(3) undo_db_success [OF r(1,2) l])
  show "length (coll (snd (post_api_appointments_undo_db d)) Appointment) = length (data b)"
    by (simp add: r(3) undo_db_count [OF r(1,2) l m])
next
  assume a: "status (fst (post_api_feedbacks_undo_db d)) = 200
      \<and> latest_backup ''feedback'' (backups d) = Some b'"
  then obtain res where r: "fst (restoreLatestBackupForCollection ''feedback'' d) = Inr res"
    "ok res" "post_api_feedbacks_undo_db d
        = (json (undo_success_body res),
           snd (restoreLatestBackupForCollection ''feedback'' d))"
    using undo_feedbacks_db_200 [of d] by auto
  have m: "modelMap ''feedback'' = Some Feedback" by (simp add: modelMap_def)
  from a have l: "latest_backup ''feedback'' (backups d) = Some b'" by simp
  show "fst (post_api_feedbacks_undo_db d)
        = json (JObj [(''status'', JStr ''success''),
                      (''message'', JStr ''Restored from latest backup''),
                      (''restored'', JNum (int (length (data b'))))])"
    by (simp add: r(3) undo_db_success [OF r(1,2) l])
  show "length (coll (snd (post_api_feedbacks_undo_db d)) Feedback) = length (data b')"
    by (simp add: r(3) undo_db_count [OF r(1,2) l m])
next
  assume "status (fst (post_api_appointments_undo s)) = 200"
  then show "fst (post_api_appointments_undo s)
        = json (JObj [(''status'', JStr ''success''),
                      (''message'', JStr ''Appointments restored from backup'')])"
    by (auto simp: post_api_appointments_undo_def status_json_def json_def
        split: prod.splits bool.splits)
next
  assume "status (fst (post_api_feedbacks_undo s)) = 200"
  then show "fst (post_api_feedbacks_undo s)
        = json (JObj [(''status'', JStr ''success''),
                      (''message'', JStr ''Feedback restored from backup'')])"
    by (auto simp: post_api_feedbacks_undo_def status_json_def json_def
        split: prod.splits bool.splits)
qed

lemma db2_undo:
  "post_api_appointments_undo_db db2
     = (json (JObj [(''status'', JStr ''success''),
                    (''message'', JStr ''Restored from latest backup''),
                    (''restored'', JNum 1)]),
        db2\<lparr>coll := (\<lambda>m. [])(Appointment := [versioned (delete_v asha_doc)])\<rparr>)"
  by (simp add: post_api_appointments_undo_db_def restore_defs latest_backup_def modelMap_def
      db2_def snapshot1_def snapshot2_def undo_success_body_def)

lemma db2_undo_feedback:
  "post_api_feedbacks_undo_db db2
     = (json (JObj [(''status'', JStr ''success''),
                    (''message'', JStr ''Restored from latest backup''),
                    (''restored'', JNum 1)]),
        db2\<lparr>coll := (\<lambda>m. [])(Feedback := [versioned (delete_v thanks_doc)])\<rparr>)"
  by (simp add: post_api_feedbacks_undo_db_def restore_defs latest_backup_def modelMap_def
      db2_def snapshot1_def snapshot2_def undo_success_body_def)

lemma db2_latest:
  "latest_backup ''appointments'' (backups db2) = Some snapshot1"
  "latest_backup ''feedback'' (backups db2) = Some snapshot2"
  by (simp_all add: latest_backup_def db2_def snapshot1_def snapshot2_def)

lemma fs2_undo:
  "fst (post_api_appointments_undo fs2)
     = json (JObj [(''status'', JStr ''success''),
                   (''message'', JStr ''Appointments restored from backup'')])"
  by (simp add: post_api_appointments_undo_def undoClear_eq fs2_def filePathOf_def
      backupPathOf_def)

lemma fs2_undo_feedback:
  "fst (post_api_feedbacks_undo fs2)
     = json (JObj [(''status'', JStr ''success''),
                   (''message'', JStr ''Feedback restored from backup'')])"
  by (simp add: post_api_feedbacks_undo_def undoClear_eq fs2_def filePathOf_def
      backupPathOf_def)

theorem undo_response_count_witness:
  "status (fst (post_api_appointments_undo_db db2)) = 200
   \<and> latest_backup ''appointments'' (backups db2) = Some snapshot1
   \<and> fst (post_api_appointments_undo_db db2)
        = json (JObj [(''status'', JStr ''success''),
                      (''message'', JStr ''Restored from latest backup''),
                      (''restored'', JNum (int (length (data snapshot1))))])
   \<and> length (coll (snd (post_api_appointments_undo_db db2)) Appointment) = 1
   \<and> status (fst (post_api_feedbacks_undo_db db2)) = 200
   \<and> latest_backup ''feedback'' (backups db2) = Some snapshot2
   \<and> fst (post_api_feedbacks_undo_db db2)
        = json (JObj [(''status'', JStr ''success''),
                      (''message'', JStr ''Restored from latest backup''),
                      (''restored'', JNum (int (length (data snapshot2))))])
   \<and> status (fst (post_api_appointments_undo fs2)) = 200
   \<and> status (fst (post_api_feedbacks_undo fs2)) = 200"
  using undo_response_count [where d = db2 and b = snapshot1 and b' = snapshot2 and s = fs2]
    db2_undo db2_undo_feedback db2_latest fs2_undo fs2_undo_feedback
  by (simp add: json_def snapshot1_def snapshot2_def)

theorem file_undo_response_has_no_count:
  "status (fst (post_api_appointments_undo fs2)) = 200
   \<and> body (fst (post_api_appointments_undo fs2))
        = JObj [(''status'', JStr ''success''),
                (''message'', JStr ''Appointments restored from backup'')]
   \<and> js_get (body (fst (post_api_appointments_undo fs2))) ''restored'' = Inr None"
  by (simp add: fs2_undo json_def)

section \<open>The history of snapshots\<close>

lemma createBackup_backups:
  "\<exists>bs. backups (createBackupForCollection cname xs nt now d) = backups d @ bs"
  by (auto simp: createBackupForCollection_def Backup_create_def split: option.splits)

lemma deleteMany_backups: "deleteMany m d = Inr d' \<Longrightarrow> backups d' = backups d"
  by (auto simp: deleteMany_def split: option.splits)

lemma restore_backups:
  "backups (snd (restoreLatestBackupForCollection cname d)) = backups d"
  by (auto simp: restore_defs split: option.splits sum.splits prod.splits if_splits)

lemma serve_backups: "\<exists>bs. backups (serve e d) = backups d @ bs"
proof (cases e)
  case (ClearAppointments now)
  obtain bs where
    "backups (createBackupForCollection ''appointments'' (coll d Appointment)
        (Some ''Cleared by admin'') now d) = backups d @ bs"
    using createBackup_backups by blast
  then show ?thesis
    using ClearAppointments
    by (auto simp: delete_api_appointments_db_def find_lean_def Let_def
        dest: deleteMany_backups split: option.splits sum.splits)
next
  case (ClearFeedbacks now)
  obtain bs where
    "backups (createBackupForCollection ''feedback'' (coll d Feedback)
        (Some ''Cleared by admin'') now d) = backups d @ bs"
    using createBackup_backups by blast
  then show ?thesis
    using ClearFeedbacks
    by (auto simp: delete_api_feedbacks_db_def find_lean_def Let_def
        dest: deleteMany_backups split: option.splits sum.splits)
next
  case UndoAppointments
  have "snd (post_api_appointments_undo_db d)
      = snd (restoreLatestBackupForCollection ''appointments'' d)"
    by (simp add: post_api_appointments_undo_db_def split: prod.splits sum.splits)
  then show ?thesis using UndoAppointments by (simp add: restore_backups)
next
  case UndoFeedbacks
  have "snd (post_api_feedbacks_undo_db d)
      = snd (restoreLatestBackupForCollection ''feedback'' d)"
    by (simp add: post_api_feedbacks_undo_db_def split: prod.splits sum.splits)
  then show ?thesis using UndoFeedbacks by (simp add: restore_backups)
next
  case (Faults f)
  then show ?thesis by simp
qed

lemma history_backups: "\<exists>bs. backups (history evs d) = backups d @ bs"
proof (induction evs arbitrary: d)
  case Nil
  show ?case by (simp add: history_def)
next
  case (Cons e evs)
  obtain bs where 1: "backups (serve e d) = backups d @ bs"
    using serve_backups by blast
  obtain cs where 2: "backups (history evs (serve e d)) = backups (serve e d) @ cs"
    using Cons.IH by blast
  show ?case using 1 2 by (simp add: history_def)
qed

text \<open>
  C6, as the code has it. In the MongoDB server a snapshot, once created, is never changed
  or deleted: after any sequence of clears, undos and storage faults the earlier
  snapshots are all still there, unchanged and in place, followed by the later ones. The
  file-backed server keeps one backup file per collection: an undo never changes it, and
  every successful clear replaces it with the contents the collection had before that
  clear.
\<close>

theorem snapshots_kept:
  "take (length (backups d)) (backups (history evs d)) = backups d
   \<and> (\<forall>i < length (backups d). backups (history evs d) ! i = backups d ! i)
   \<and> files (snd (undoClear name s)) (backupPathOf name) = files s (backupPathOf name)
   \<and> (fst (clearFile name s) = Inr () \<longrightarrow>
        files (snd (clearFile name s)) (backupPathOf name)
          = Some (case files s (filePathOf name) of
                    None \<Rightarrow> empty_array_text
                  | Some current \<Rightarrow> current))"
proof -
  obtain bs where h: "backups (history evs d) = backups d @ bs"
    using history_backups by blast
  have u: "files (snd (undoClear name s)) (backupPathOf name) = files s (backupPathOf name)"
    using paths_differ [of name] by (auto simp: undoClear_eq)
  have c: "files (snd (clearFile name s)) (backupPathOf name)
          = Some (case files s (filePathOf name) of
                    None \<Rightarrow> empty_array_text
                  | Some current \<Rightarrow> current)"
    if "fst (clearFile name s) = Inr ()"
    using paths_differ [of name] by (simp add: clearFile_returns(1) [OF that])
  show ?thesis
    using h u c by (simp add: nth_append)
qed

theorem snapshots_kept_witness:
  "backups (history [UndoAppointments, ClearAppointments 1700000000900, UndoAppointments] db2) ! 0
     = snapshot1
   \<and> fst (clearFile ''appointments.json'' fs1) = Inr ()
   \<and> files (snd (clearFile ''appointments.json'' fs1)) (backupPathOf ''appointments.json'')
        = Some (Json (JArr [asha]))"
  using snapshots_kept [where d = db2 and s = fs1 and name = "''appointments.json''"
      and evs = "[UndoAppointments, ClearAppointments 1700000000900, UndoAppointments]"]
    fs1_clear
  by (simp add: db2_def fs1_def filePathOf_def)

theorem second_clear_overwrites_backup:
  "files (snd (delete_api_appointments fs1)) (backupPathOf ''appointments.json'')
     = Some (Json (JArr [asha]))
   \<and> files (snd (delete_api_appointments (snd (delete_api_appointments fs1))))
        (backupPathOf ''appointments.json'')
     = Some (Json (JArr []))"
  by (simp add: delete_api_appointments_def clearFile_def fs1_def mkdirSync_def existsSync_def
      readFileSync_def writeFileSync_def filePathOf_def backupPathOf_def backupDir_def
      empty_array_text_def Let_def)

section \<open>The listing\<close>

lemma ts_ge_total: "ts_ge a b \<or> ts_ge b a"
  by (cases a; cases b) auto

lemma ts_ge_trans: "ts_ge a b \<Longrightarrow> ts_ge b c \<Longrightarrow> ts_ge a c"
  by (cases a; cases b; cases c) auto

lemma set_insort_desc: "set (insort_desc d xs) = insert d (set xs)"
  by (induction xs) auto

lemma mset_insort_desc: "mset (insort_desc d xs) = add_mset d (mset xs)"
  by (induction xs) auto

lemma sorted_insort_desc:
  "sorted_wrt (\<lambda>a b. ts_ge (ts_key a) (ts_key b)) xs \<Longrightarrow>
     sorted_wrt (\<lambda>a b. ts_ge (ts_key a) (ts_key b)) (insort_desc d xs)"
proof (induction xs)
  case Nil
  show ?case by simp
next
  case (Cons x xs)
  show ?case
  proof (cases "ts_ge (ts_key d) (ts_key x)")
    case True
    then show ?thesis
      using Cons.prems by (auto intro: ts_ge_trans)
  next
    case False
    then have "ts_ge (ts_key x) (ts_key d)"
      using ts_ge_total by blast
    then show ?thesis
      using False Cons by (auto simp: set_insort_desc)
  qed
qed

lemma sorted_sort_timestamp_desc:
  "sorted_wrt (\<lambda>a b. ts_ge (ts_key a) (ts_key b)) (sort_timestamp_desc xs)"
  by (induction xs) (simp_all add: sort_timestamp_desc_def sorted_insort_desc)

lemma mset_sort_timestamp_desc: "mset (sort_timestamp_desc xs) = mset xs"
  by (induction xs) (simp_all add: sort_timestamp_desc_def mset_insort_desc)

lemma readJsonArray_stored:
  assumes "files s (filePathOf name) = Some (Json (JArr xs))"
    and "filePathOf name \<notin> read_fault s"
  shows "readJsonArray name s = (xs, s)"
  using assms
  by (simp add: readJsonArray_def ensureJsonFile_def existsSync_def readFileSync_def
      JSON_parse_def Let_def)

lemma writeJsonArray_ok:
  "filePathOf name \<notin> write_fault s \<Longrightarrow>
     writeJsonArray name arr s = s\<lparr>files := (files s)(filePathOf name \<mapsto> Json (JArr arr))\<rparr>"
  by (simp add: writeJsonArray_def writeFileSync_def JSON_stringify_def)

text \<open>
  C5, as the code has it. The listing returns all current records. The MongoDB server
  orders them by timestamp, latest first. The file-backed server returns them in the
  order of the file, which is the order of submission, earliest first, and does not
  sort. An empty collection (in the file-backed server also a missing file) gives the
  empty sequence with status 200, not an error.
\<close>

theorem listing_order:
  "(fault d Find = None \<longrightarrow>
      get_api_appointments_db d
        = (json (JArr (map list_item (sort_timestamp_desc (coll d Appointment)))), d)
      \<and> get_api_feedbacks_db d
        = (json (JArr (map list_item (sort_timestamp_desc (coll d Feedback)))), d))
   \<and> sorted_wrt (\<lambda>a b. ts_ge (ts_key a) (ts_key b)) (sort_timestamp_desc ds)
   \<and> mset (sort_timestamp_desc ds) = mset ds
   \<and> sort_timestamp_desc [] = []
   \<and> fst (get_api_appointments s) = json (JArr (fst (readJsonArray ''appointments.json'' s)))
   \<and> fst (get_api_feedbacks s) = json (JArr (fst (readJsonArray ''feedback.json'' s)))
   \<and> (files s (filePathOf name) = Some (Json (JArr xs)) \<and> filePathOf name \<notin> read_fault s \<longrightarrow>
        fst (readJsonArray name s) = xs)
   \<and> (files s (filePathOf ''appointments.json'') = Some (Json (JArr xs))
        \<and> filePathOf ''appointments.json'' \<notin> read_fault s
        \<and> filePathOf ''appointments.json'' \<notin> write_fault s \<longrightarrow>
        fst (get_api_appointments (snd (pushAppointment num now isoNow obj s)))
          = json (JArr (xs @ [fst (pushAppointment num now isoNow obj s)])))
   \<and> (files s (filePathOf name) = None \<or> files s (filePathOf name) = Some (Json (JArr [])) \<longrightarrow>
        fst (readJsonArray name s) = [])"
proof -
  have 1: "fst (get_api_appointments (snd (pushAppointment num now isoNow obj s)))
          = json (JArr (xs @ [fst (pushAppointment num now isoNow obj s)]))"
    if a: "files s (filePathOf ''appointments.json'') = Some (Json (JArr xs))
        \<and> filePathOf ''appointments.json'' \<notin> read_fault s
        \<and> filePathOf ''appointments.json'' \<notin> write_fault s"
  proof -
    have r: "readJsonArray ''appointments.json'' s = (xs, s)"
      using a by (simp add: readJsonArray_stored)
    obtain rec where p: "pushAppointment num now isoNow obj s
        = (rec, s\<lparr>files := (files s)(filePathOf ''appointments.json''
                     \<mapsto> Json (JArr (xs @ [rec])))\<rparr>)"
      using a by (simp add: pushAppointment_def r Let_def writeJsonArray_ok)
    have "readJsonArray ''appointments.json'' (snd (pushAppointment num now isoNow obj s))
        = (xs @ [rec], snd (pushAppointment num now isoNow obj s))"
      using a by (intro readJsonArray_stored) (simp_all add: p)
    then show ?thesis
      by (simp add: get_api_appointments_def p)
  qed
  have 2: "fst (readJsonArray name s) = []"
    if "files s (filePathOf name) = None \<or> files s (filePathOf name) = Some (Json (JArr []))"
    using that readJsonArray_missing [of s name] readJsonArray_empty_text [of s name]
    by (auto simp: empty_array_text_def)
  show ?thesis
    using 1 2
    by (simp add: get_api_appointments_db_def get_api_feedbacks_db_def find_sort_lean_def
        sorted_sort_timestamp_desc mset_sort_timestamp_desc get_api_appointments_def
        get_api_feedbacks_def readJsonArray_stored split: prod.splits)
      (simp add: sort_timestamp_desc_def)
qed

theorem listing_order_witness:
  "fault db1 Find = None
   \<and> fst (get_api_appointments_db db1) = json (JArr [list_item asha_doc])
   \<and> files fs1 (filePathOf ''appointments.json'') = Some (Json (JArr [asha]))
   \<and> filePathOf ''appointments.json'' \<notin> read_fault fs1
   \<and> filePathOf ''appointments.json'' \<notin> write_fault fs1
   \<and> fst (readJsonArray ''appointments.json'' fs1) = [asha]
   \<and> fst (get_api_appointments (snd (pushAppointment (\<lambda>v. JNum 300) 1700086400000
              ''2023-11-15T22:13:20.000Z'' [(''name'', JStr ''Bina''), (''fee'', JNum 300)] fs1)))
       = json (JArr [asha, fst (pushAppointment (\<lambda>v. JNum 300) 1700086400000
              ''2023-11-15T22:13:20.000Z'' [(''name'', JStr ''Bina''), (''fee'', JNum 300)] fs1)])
   \<and> files fs0 (filePathOf ''feedback.json'') = None
   \<and> fst (readJsonArray ''feedback.json'' fs0) = []"
  using listing_order [where d = db1 and s = fs1 and name = "''appointments.json''"
      and xs = "[asha]" and num = "\<lambda>v. JNum 300" and now = 1700086400000
      and isoNow = "''2023-11-15T22:13:20.000Z''"
      and obj = "[(''name'', JStr ''Bina''), (''fee'', JNum 300)]"]
    listing_order [where s = fs0 and name = "''feedback.json''"]
  by (simp add: db1_def fs1_def fs0_def filePathOf_def sort_timestamp_desc_def)

theorem file_listing_not_descending:
  "fst (get_api_appointments fs3) = json (JArr [asha, bina])
   \<and> \<not> timestamp_descending [asha, bina]"
  by (simp add: get_api_appointments_def readJsonArray_def ensureJsonFile_def existsSync_def
      readFileSync_def JSON_parse_def fs3_def filePathOf_def Let_def timestamp_descending_def
      json_timestamp_def asha_def bina_def)

section \<open>Updating an appointment\<close>

lemma findIndex_Some:
  "findIndex p xs = Inr (Some i) \<Longrightarrow> i < length xs \<and> p (xs ! i) = Inr True"
proof (induction xs arbitrary: i)
  case Nil
  then show ?case by simp
next
  case (Cons a as)
  then show ?case
    by (cases i) (auto split: sum.splits bool.splits option.splits)
qed











text \<open>
  A numeric id is matched by the text the library prints for it, whatever that is: with
  the exponent form JavaScript prints from \<open>10^21\<close> on, the record is found under that
  text and not under its plain digits.
\<close>

lemma numeric_id_matched_by_its_text:
  assumes "number_text pr (10 ^ 21) = ''1e+21''"
  shows "id_matches pr ''1e+21'' (JObj [(''id'', JNum (10 ^ 21))]) = Inr True"
    and "id_matches pr ''1000000000000000000000'' (JObj [(''id'', JNum (10 ^ 21))]) = Inr False"
  using assms by (simp_all add: id_matches_def js_String_opt_def)






section \<open>A failed snapshot, and identifiers\<close>

text \<open>
  C1. In the MongoDB server a failed snapshot does not stop the clear:
  \<^verbatim>\<open>createBackupForCollection\<close> swallows the error, the handler goes on to
  \<^verbatim>\<open>deleteMany\<close> and answers success. Here the one appointment is deleted, no
  backup exists, and the undo that follows is refused.
\<close>

theorem clear_proceeds_when_backup_fails:
  "coll db1_backup_down Appointment = [asha_doc]
   \<and> fst (delete_api_appointments_db 1700000000500 db1_backup_down)
        = json (JObj [(''status'', JStr ''success''),
             (''message'', JStr
                ''All appointments cleared. You can undo (restores the latest backup).'')])
   \<and> coll (snd (delete_api_appointments_db 1700000000500 db1_backup_down)) Appointment = []
   \<and> backups (snd (delete_api_appointments_db 1700000000500 db1_backup_down)) = []
   \<and> fst (post_api_appointments_undo_db
          (snd (delete_api_appointments_db 1700000000500 db1_backup_down)))
        = status_json 400 (JObj [(''error'', JStr ''No backup available'')])"
  by (simp add: delete_api_appointments_db_def find_lean_def createBackupForCollection_def
      Backup_create_def db1_backup_down_def post_api_appointments_undo_db_def
      restore_defs latest_backup_def)

lemma decimal_example: "decimal 1700000000000 = ''1700000000000''"
  by (simp add: decimal.simps digit_def)

text \<open>
  C9. Two feedback submissions served within the same millisecond get the same
  identifier: both records are stored, they differ, and both carry the id made from the
  one clock reading.
\<close>

theorem pushFeedback_same_millisecond_same_id:
  "js_get (fst (pushFeedback num 1700000000000 ''2023-11-14T22:13:20.000Z''
                  [(''feedback'', JStr ''good'')] fs0)) ''id''
     = Inr (Some (JStr ''fb_1700000000000''))
   \<and> js_get (fst (pushFeedback num 1700000000000 ''2023-11-14T22:13:20.000Z''
                  [(''feedback'', JStr ''slow'')]
                  (snd (pushFeedback num 1700000000000 ''2023-11-14T22:13:20.000Z''
                          [(''feedback'', JStr ''good'')] fs0)))) ''id''
     = Inr (Some (JStr ''fb_1700000000000''))
   \<and> fst (readJsonArray ''feedback.json''
        (snd (pushFeedback num 1700000000000 ''2023-11-14T22:13:20.000Z''
                [(''feedback'', JStr ''slow'')]
                (snd (pushFeedback num 1700000000000 ''2023-11-14T22:13:20.000Z''
                        [(''feedback'', JStr ''good'')] fs0)))))
     = [JObj [(''id'', JStr ''fb_1700000000000''), (''name'', JNull),
              (''email'', JNull), (''phone'', JNull), (''message'', JStr ''good''),
              (''rating'', JNull), (''timestamp'', JStr ''2023-11-14T22:13:20.000Z'')],
        JObj [(''id'', JStr ''fb_1700000000000''), (''name'', JNull),
              (''email'', JNull), (''phone'', JNull), (''message'', JStr ''slow''),
              (''rating'', JNull), (''timestamp'', JStr ''2023-11-14T22:13:20.000Z'')]]"
  by (simp add: pushFeedback_def readJsonArray_def ensureJsonFile_def existsSync_def
      readFileSync_def writeFileSync_def writeJsonArray_def JSON_parse_def JSON_stringify_def
      empty_array_text_def filePathOf_def fs0_def Let_def nullish_def js_or_def decimal_example)

end
